theory Spec2Isabelle
  imports Main "HOL-Library.AList"
begin

section \<open>The collaboration service of SermonFlow\<close>

text \<open>
  A shallow embedding of \<^verbatim>\<open>packages/api/src/services/collaboration.ts\<close>: the Socket.IO
  handlers \<^verbatim>\<open>join\<close>, \<^verbatim>\<open>leave\<close>, \<^verbatim>\<open>cursor\<close>, \<^verbatim>\<open>block:edit\<close> and \<^verbatim>\<open>disconnect\<close>, and the
  periodic cleanup. Each handler is a function from the world (the Redis store, the
  database tables it touches, the Socket.IO rooms) to the new world and the list of
  messages it emits, in emission order.

  Conventions.
  \<^item> Strings are lists of code units; user, block, room and socket ids are strings.
  \<^item> JavaScript numbers are restricted to integers (\<open>int\<close>); an optional field is an
    \<open>option\<close>, \<open>None\<close> standing for \<^verbatim>\<open>undefined\<close>.
  \<^item> A JavaScript object used as a dictionary (\<^verbatim>\<open>activeUsers\<close>, \<^verbatim>\<open>locks\<close>) is the
    association list of its own properties, with distinct keys in insertion order:
    \<open>map_of\<close> reads, \<open>js_assign\<close> assigns, \<open>AList.delete\<close> deletes (JavaScript enumerates
    the keys that are array indices first; no property below depends on the order).
    A key that is not an own property reads as \<^verbatim>\<open>undefined\<close> or as a member inherited
    from \<^verbatim>\<open>Object.prototype\<close>, which has no \<^verbatim>\<open>userId\<close> and no \<^verbatim>\<open>expires\<close>. The tests on a
    lock take the same branch on both; where a test on a user does not (an inherited
    member is truthy), the handler deletes no own property and writes the record back as
    it has read it. Both are \<open>None\<close> here.
  \<^item> \<^verbatim>\<open>JSON.stringify\<close> followed by \<^verbatim>\<open>JSON.parse\<close> is the identity on session records,
    so the store holds the records themselves.
  \<^item> Every read of the clock (\<^verbatim>\<open>Date.now()\<close>, \<^verbatim>\<open>new Date()\<close>) is a parameter of the
    handler, in milliseconds.
  \<^item> Each handler is a function: one run of it from its first to its last statement,
    with no other run's access to the store in between. In the source every access to
    the store is an \<^verbatim>\<open>await\<close>, so runs can interleave; \<open>run_in_turn\<close> is the execution in
    which they do not, and the properties that need it say so. The read and the write of
    the lock step of \<^verbatim>\<open>block:edit\<close> are also given as separate steps, to state what
    happens when another run comes between them.
  \<^item> The Redis client is either \<^verbatim>\<open>null\<close> (\<open>None\<close>) or answers every command; failures
    of the database in \<^verbatim>\<open>block:edit\<close> are inputs of the handler (\<open>faults\<close>).
\<close>

subsection \<open>JavaScript strings\<close>

text \<open>\<^verbatim>\<open>String.prototype.substring(start, end)\<close>: both indices are clamped to
  \<open>[0, length]\<close>, a missing \<^verbatim>\<open>end\<close> is the length, and the two are swapped when
  \<^verbatim>\<open>start > end\<close>.\<close>

definition clamp_index :: "int \<Rightarrow> nat \<Rightarrow> nat" where
  "clamp_index i n = nat (min (max i 0) (int n))"

definition substring :: "string \<Rightarrow> int \<Rightarrow> int option \<Rightarrow> string" where
  "substring s start fin =
     (let len = length s;
          intStart = clamp_index start len;
          intEnd = (case fin of None \<Rightarrow> len | Some e \<Rightarrow> clamp_index e len);
          lo = min intStart intEnd;
          hi = max intStart intEnd
      in take (hi - lo) (drop lo s))"

subsection \<open>JavaScript objects\<close>

text \<open>The assignment \<^verbatim>\<open>obj[k] = v\<close> of an object \<open>v\<close> to a plain object \<open>obj\<close>. It sets the
  own property \<open>k\<close>, except for the key \<^verbatim>\<open>__proto__\<close> when \<open>obj\<close> has no own property of
  that name: the assignment then reaches the setter inherited from \<^verbatim>\<open>Object.prototype\<close>,
  which replaces the prototype of \<open>obj\<close> and adds no own property, so \<^verbatim>\<open>JSON.stringify\<close>
  writes \<open>obj\<close> as it was. (\<^verbatim>\<open>JSON.parse\<close> and a computed key of an object literal do define
  an own property \<^verbatim>\<open>__proto__\<close>.)\<close>

definition js_assign :: "string \<Rightarrow> 'v \<Rightarrow> (string \<times> 'v) list \<Rightarrow> (string \<times> 'v) list" where
  "js_assign k v obj =
     (if k = ''__proto__'' \<and> map_of obj k = None then obj else AList.update k v obj)"

subsection \<open>Edit operations\<close>

datatype operation_type = Insert | Delete | Replace

text \<open>The \<^verbatim>\<open>operation\<close> field of a \<^verbatim>\<open>block:edit\<close> request
  (\<^verbatim>\<open>Omit<BlockEditOperation, 'userId' | 'timestamp'>\<close>).\<close>

record edit_operation =
  op_type :: operation_type
  op_position :: "int option"
  op_length :: "int option"
  op_text :: "string option"

text \<open>Truthiness of an optional string and of an optional number.\<close>

definition truthy_text :: "string option \<Rightarrow> bool" where
  "truthy_text t = (case t of None \<Rightarrow> False | Some s \<Rightarrow> s \<noteq> [])"

definition truthy_number :: "int option \<Rightarrow> bool" where
  "truthy_number n = (case n of None \<Rightarrow> False | Some k \<Rightarrow> k \<noteq> 0)"

text \<open>The \<^verbatim>\<open>switch (operation.type)\<close> of \<^verbatim>\<open>block:edit\<close>, from the loaded content to
  \<^verbatim>\<open>newContent\<close>.\<close>

definition apply_operation :: "string \<Rightarrow> edit_operation \<Rightarrow> string" where
  "apply_operation newContent operation =
     (case op_type operation of
        Insert \<Rightarrow>
          (case (op_position operation, op_text operation) of
             (Some position, Some text) \<Rightarrow>
               if truthy_text (Some text)
               then substring newContent 0 (Some position) @ text
                      @ substring newContent position None
               else newContent
           | _ \<Rightarrow> newContent)
      | Delete \<Rightarrow>
          (case (op_position operation, op_length operation) of
             (Some position, Some len) \<Rightarrow>
               if truthy_number (Some len)
               then substring newContent 0 (Some position)
                      @ substring newContent (position + len) None
               else newContent
           | _ \<Rightarrow> newContent)
      | Replace \<Rightarrow>
          (case op_text operation of
             Some text \<Rightarrow> text
           | None \<Rightarrow> newContent))"

subsection \<open>The database\<close>

text \<open>The rows and columns the handlers read and write, keyed by \<^verbatim>\<open>id\<close>. A document row
  (\<^verbatim>\<open>sermon\<close>, \<^verbatim>\<open>series\<close>) keeps the user ids of its collaborator rows.\<close>

record sermon_block =
  content :: string
  updatedAt :: int

record sermon_block_version =
  version_blockId :: string
  version_content :: string
  version_createdById :: string

record user_row =
  firstName :: string
  lastName :: string
  avatarUrl :: "string option"

record document_row =
  createdById :: string
  collaborators :: "string list"

record database =
  sermonBlock :: "string \<rightharpoonup> sermon_block"
  sermonBlockVersion :: "sermon_block_version list"
  user :: "string \<rightharpoonup> user_row"
  sermon :: "string \<rightharpoonup> document_row"
  series :: "string \<rightharpoonup> document_row"

text \<open>A database call of \<^verbatim>\<open>block:edit\<close> that throws carries the message of the error
  thrown.\<close>

record faults =
  findUnique_throws :: "string option"
  update_throws :: "string option"
  create_throws :: "string option"

definition no_faults :: faults where
  "no_faults = \<lparr>findUnique_throws = None, update_throws = None, create_throws = None\<rparr>"

text \<open>The body of the inner \<^verbatim>\<open>try\<close> of \<^verbatim>\<open>block:edit\<close> up to the broadcast:
  \<^verbatim>\<open>findUnique\<close>, the switch, \<^verbatim>\<open>update\<close>, and the creation of the version entry.
  \<open>Inl\<close> is the message of the error caught by the inner \<^verbatim>\<open>catch\<close>; the database
  returned holds what had been written before the error.\<close>

definition persist_edit ::
  "faults \<Rightarrow> int \<Rightarrow> database \<Rightarrow> string \<Rightarrow> edit_operation \<Rightarrow> string
     \<Rightarrow> database \<times> (string + string)" where
  "persist_edit f now tables blockId operation userId =
     (case findUnique_throws f of
        Some msg \<Rightarrow> (tables, Inl msg)
      | None \<Rightarrow>
          (case sermonBlock tables blockId of
             None \<Rightarrow> (tables, Inl (''Block not found: '' @ blockId))
           | Some block \<Rightarrow>
               let newContent = apply_operation (content block) operation in
               (case update_throws f of
                  Some msg \<Rightarrow> (tables, Inl msg)
                | None \<Rightarrow>
                    let tables1 = tables\<lparr>sermonBlock := (sermonBlock tables)
                          (blockId \<mapsto> block\<lparr>content := newContent, updatedAt := now\<rparr>)\<rparr>
                    in (case create_throws f of
                          Some msg \<Rightarrow> (tables1, Inl msg)
                        | None \<Rightarrow>
                            (tables1\<lparr>sermonBlockVersion := sermonBlockVersion tables1 @
                                [\<lparr>version_blockId = blockId, version_content = newContent,
                                  version_createdById = userId\<rparr>]\<rparr>,
                             Inr newContent)))))"

datatype entity_type = Sermon | Series

fun entity_name :: "entity_type \<Rightarrow> string" where
  "entity_name Sermon = ''sermon''"
| "entity_name Series = ''series''"

text \<open>\<^verbatim>\<open>checkCollaborationAccess\<close>: the document exists and the user created it or has a
  collaborator row on it.\<close>

definition checkCollaborationAccess ::
  "database \<Rightarrow> string \<Rightarrow> entity_type \<Rightarrow> string \<Rightarrow> bool" where
  "checkCollaborationAccess prisma userId entityType entityId =
     (case entityType of
        Sermon \<Rightarrow>
          (case sermon prisma entityId of
             None \<Rightarrow> False
           | Some doc \<Rightarrow> createdById doc = userId
               \<or> 0 < length (filter (\<lambda>c. c = userId) (collaborators doc)))
      | Series \<Rightarrow>
          (case series prisma entityId of
             None \<Rightarrow> False
           | Some doc \<Rightarrow> createdById doc = userId
               \<or> 0 < length (filter (\<lambda>c. c = userId) (collaborators doc))))"

subsection \<open>Session records\<close>

record cursor_position =
  cursor_blockId :: string
  cursor_offset :: int

record collaboration_user =
  user_id :: string
  user_name :: string
  user_avatarUrl :: "string option"
  user_cursor :: "cursor_position option"
  user_lastActivity :: int

text \<open>\<^verbatim>\<open>BlockEditOperation\<close>: the request's operation with \<^verbatim>\<open>blockId\<close>, \<^verbatim>\<open>userId\<close> and
  \<^verbatim>\<open>timestamp\<close> set by the handler.\<close>

record block_edit_operation =
  operation_fields :: edit_operation
  operation_blockId :: string
  operation_userId :: string
  operation_timestamp :: int

record lock =
  lock_userId :: string
  lock_expires :: int

record session_metadata =
  entityType :: entity_type
  entityId :: string
  lastActivity :: int
  activeUsers :: "(string \<times> collaboration_user) list"
  operations :: "block_edit_operation list"
  locks :: "(string \<times> lock) list"

definition REDIS_PREFIX :: string where
  "REDIS_PREFIX = ''sermonflow:collab:''"

definition SESSION_PREFIX :: string where
  "SESSION_PREFIX = REDIS_PREFIX @ ''session:''"

definition USER_SESSIONS_PREFIX :: string where
  "USER_SESSIONS_PREFIX = REDIS_PREFIX @ ''user:''"

definition LOCK_TIMEOUT :: int where
  "LOCK_TIMEOUT = 30000"

definition OPERATIONS_MAX_LENGTH :: nat where
  "OPERATIONS_MAX_LENGTH = 100"

definition roomId_of :: "entity_type \<Rightarrow> string \<Rightarrow> string" where
  "roomId_of etype eid = entity_name etype @ '':'' @ eid"

subsection \<open>The Redis store\<close>

text \<open>String keys hold session records, set keys hold the rooms of a user. The time to
  live given with \<^verbatim>\<open>EX\<close> and \<^verbatim>\<open>expire\<close> is not a field of the store: a key that expires is
  deleted by the event \<open>Expire\<close> below, at any moment.\<close>

record redis_store =
  strings :: "(string \<times> session_metadata) list"
  sets :: "(string \<times> string list) list"

definition redis_get :: "redis_store \<Rightarrow> string \<Rightarrow> session_metadata option" where
  "redis_get r k = map_of (strings r) k"

definition redis_set :: "redis_store \<Rightarrow> string \<Rightarrow> session_metadata \<Rightarrow> redis_store" where
  "redis_set r k v = r\<lparr>strings := AList.update k v (strings r)\<rparr>"

definition redis_del :: "redis_store \<Rightarrow> string \<Rightarrow> redis_store" where
  "redis_del r k = r\<lparr>strings := AList.delete k (strings r), sets := AList.delete k (sets r)\<rparr>"

definition redis_smembers :: "redis_store \<Rightarrow> string \<Rightarrow> string list" where
  "redis_smembers r k = (case map_of (sets r) k of None \<Rightarrow> [] | Some ms \<Rightarrow> ms)"

definition redis_sadd :: "redis_store \<Rightarrow> string \<Rightarrow> string \<Rightarrow> redis_store" where
  "redis_sadd r k m = r\<lparr>sets := AList.update k (List.insert m (redis_smembers r k)) (sets r)\<rparr>"

text \<open>Redis deletes a set that becomes empty.\<close>

definition redis_srem :: "redis_store \<Rightarrow> string \<Rightarrow> string \<Rightarrow> redis_store" where
  "redis_srem r k m =
     (let ms = removeAll m (redis_smembers r k)
      in if ms = [] then r\<lparr>sets := AList.delete k (sets r)\<rparr>
         else r\<lparr>sets := AList.update k ms (sets r)\<rparr>)"

text \<open>\<^verbatim>\<open>redis.keys(prefix + '*')\<close>.\<close>

definition redis_keys :: "redis_store \<Rightarrow> string \<Rightarrow> string list" where
  "redis_keys r pre =
     filter (\<lambda>k. take (length pre) k = pre) (map fst (strings r) @ map fst (sets r))"

subsection \<open>Sockets, rooms and messages\<close>

text \<open>A connection: the socket id and the user id attached by the authentication
  middleware (\<^verbatim>\<open>socket.data.auth.userId\<close>).\<close>

record socket =
  socket_id :: string
  auth_userId :: string

text \<open>Where a message is sent: \<^verbatim>\<open>socket.emit\<close> (the socket itself),
  \<^verbatim>\<open>socket.to(room).emit\<close> (from a socket to a room) and \<^verbatim>\<open>io.to(room).emit\<close>.\<close>

datatype target = Emit string | SocketTo string string | IoTo string

text \<open>Delivery by Socket.IO, as its documentation gives it: \<^verbatim>\<open>socket.to(room)\<close> reaches
  every socket of the room except the sender, \<^verbatim>\<open>io.to(room)\<close> every socket of the room.\<close>

fun recipients :: "(string \<Rightarrow> string set) \<Rightarrow> target \<Rightarrow> string set" where
  "recipients rms (Emit sid) = {sid}"
| "recipients rms (SocketTo sid room) = rms room - {sid}"
| "recipients rms (IoTo room) = rms room"

datatype collaboration_event = USER_JOINED | USER_LEFT | CURSOR_MOVED | BLOCK_UPDATED

datatype event_data =
    JoinedData collaboration_user
  | LeftData string
  | CursorData string cursor_position
  | BlockUpdatedData string block_edit_operation string

datatype error_details =
    NoDetails
  | LockedDetails string string
  | EditDetails string string

text \<open>\<open>ErrorMsg code message details\<close> is an \<^verbatim>\<open>error\<close> event, \<open>SessionMsg id entityType
  entityId activeUsers lastActivity\<close> a \<^verbatim>\<open>session\<close> event, \<open>CollaborationMsg event
  sessionId userId timestamp data\<close> a \<^verbatim>\<open>collaboration\<close> event.\<close>

datatype message =
    ErrorMsg string string error_details
  | SessionMsg string entity_type string "collaboration_user list" int
  | CollaborationMsg collaboration_event string string int event_data

type_synonym emission = "target \<times> message"

record world =
  redis :: "redis_store option"
  db :: database
  rooms :: "string \<Rightarrow> string set"

text \<open>The clock of one handler run: \<open>clk i\<close> is what the \<open>i\<close>-th read site of the handler,
  in source order, returns.\<close>

type_synonym clock = "nat \<Rightarrow> int"

subsection \<open>The handler of \<^verbatim>\<open>join\<close>\<close>

record join_data =
  join_entityType :: entity_type
  join_entityId :: string
  join_displayName :: "string option"

text \<open>The \<^verbatim>\<open>collaborationUser\<close> object built from the profile row:
  \<^verbatim>\<open>displayName || firstName + ' ' + lastName\<close> and \<^verbatim>\<open>avatarUrl || undefined\<close>.\<close>

definition collaboration_user_of ::
  "string \<Rightarrow> user_row \<Rightarrow> string option \<Rightarrow> int \<Rightarrow> collaboration_user" where
  "collaboration_user_of uid u displayName now =
     \<lparr>user_id = uid,
      user_name = (case displayName of
                     Some n \<Rightarrow> if truthy_text (Some n) then n
                               else firstName u @ '' '' @ lastName u
                   | None \<Rightarrow> firstName u @ '' '' @ lastName u),
      user_avatarUrl = (if truthy_text (avatarUrl u) then avatarUrl u else None),
      user_cursor = None,
      user_lastActivity = now\<rparr>"

text \<open>The session to store: the one read from the store with the user assigned and the
  activity time refreshed, or a new one with this user only.\<close>

definition join_session ::
  "entity_type \<Rightarrow> string \<Rightarrow> string \<Rightarrow> collaboration_user \<Rightarrow> int
     \<Rightarrow> session_metadata option \<Rightarrow> session_metadata" where
  "join_session etype eid uid collaborationUser now sessionData =
     (case sessionData of
        Some s \<Rightarrow>
          s\<lparr>activeUsers := js_assign uid collaborationUser (activeUsers s),
            lastActivity := now\<rparr>
      | None \<Rightarrow>
          \<lparr>entityType = etype, entityId = eid, lastActivity = now,
           activeUsers = [(uid, collaborationUser)], operations = [], locks = []\<rparr>)"

text \<open>Clock read sites: 0 the user's \<^verbatim>\<open>lastActivity\<close>, 1 the session's \<^verbatim>\<open>lastActivity\<close>,
  2 the timestamp of the broadcast, 3 the \<^verbatim>\<open>lastActivity\<close> of the session sent without
  Redis.\<close>

definition join :: "clock \<Rightarrow> socket \<Rightarrow> join_data \<Rightarrow> world \<Rightarrow> world \<times> emission list" where
  "join clk sock data w =
     (let etype = join_entityType data;
          eid = join_entityId data;
          uid = auth_userId sock;
          sid = socket_id sock
      in if \<not> checkCollaborationAccess (db w) uid etype eid
         then (w, [(Emit sid, ErrorMsg ''PERMISSION_DENIED''
                 ''You do not have permission to access this collaboration session''
                 NoDetails)])
         else
           let roomId = roomId_of etype eid;
               w1 = w\<lparr>rooms := (rooms w)(roomId := insert sid (rooms w roomId))\<rparr>
           in (case user (db w1) uid of
                 None \<Rightarrow> (w1, [(Emit sid, ErrorMsg ''USER_NOT_FOUND'' ''User not found'' NoDetails)])
               | Some u \<Rightarrow>
                   let collaborationUser =
                         collaboration_user_of uid u (join_displayName data) (clk 0);
                       sessionKey = SESSION_PREFIX @ roomId;
                       w2 = (case redis w1 of
                               None \<Rightarrow> w1
                             | Some r \<Rightarrow>
                                 let session = join_session etype eid uid collaborationUser
                                                 (clk 1) (redis_get r sessionKey);
                                     r1 = redis_set r sessionKey session;
                                     r2 = redis_sadd r1 (USER_SESSIONS_PREFIX @ uid) roomId
                                 in w1\<lparr>redis := Some r2\<rparr>);
                       joinPayload = CollaborationMsg USER_JOINED roomId uid (clk 2)
                                       (JoinedData collaborationUser);
                       sessionOut =
                         (case redis w2 of
                            Some r \<Rightarrow>
                              (case redis_get r sessionKey of
                                 Some s \<Rightarrow>
                                   [(Emit sid, SessionMsg roomId etype eid
                                       (map snd (activeUsers s)) (lastActivity s))]
                               | None \<Rightarrow> [])
                          | None \<Rightarrow>
                              [(Emit sid, SessionMsg roomId etype eid [collaborationUser] (clk 3))])
                   in (w2, (SocketTo sid roomId, joinPayload) # sessionOut)))"

subsection \<open>The handlers of \<^verbatim>\<open>leave\<close> and \<^verbatim>\<open>disconnect\<close>\<close>

record room_data =
  room_entityType :: entity_type
  room_entityId :: string

text \<open>What both handlers do to a session read from the store: the user is deleted from
  \<^verbatim>\<open>activeUsers\<close>, and every lock whose \<^verbatim>\<open>userId\<close> is the user's is deleted.\<close>

definition remove_user :: "string \<Rightarrow> session_metadata \<Rightarrow> session_metadata" where
  "remove_user uid s =
     s\<lparr>activeUsers := AList.delete uid (activeUsers s),
       locks := filter (\<lambda>(blockId, l). lock_userId l \<noteq> uid) (locks s)\<rparr>"

text \<open>Clock read site 0: the timestamp of the broadcast.\<close>

definition leave :: "clock \<Rightarrow> socket \<Rightarrow> room_data \<Rightarrow> world \<Rightarrow> world \<times> emission list" where
  "leave clk sock data w =
     (let uid = auth_userId sock;
          sid = socket_id sock;
          roomId = roomId_of (room_entityType data) (room_entityId data);
          w1 = w\<lparr>rooms := (rooms w)(roomId := rooms w roomId - {sid})\<rparr>;
          sessionKey = SESSION_PREFIX @ roomId;
          w2 = (case redis w1 of
                  None \<Rightarrow> w1
                | Some r \<Rightarrow>
                    (case redis_get r sessionKey of
                       None \<Rightarrow> w1
                     | Some s \<Rightarrow>
                         let session = remove_user uid s;
                             r1 = (if 0 < length (activeUsers session)
                                   then redis_set r sessionKey session
                                   else redis_del r sessionKey);
                             r2 = redis_srem r1 (USER_SESSIONS_PREFIX @ uid) roomId
                         in w1\<lparr>redis := Some r2\<rparr>))
      in (w2, [(IoTo roomId, CollaborationMsg USER_LEFT roomId uid (clk 0) (LeftData uid))]))"

text \<open>The loop of \<^verbatim>\<open>disconnect\<close> over the rooms of the user; \<open>clk i\<close> is the timestamp of
  the broadcast of the \<open>i\<close>-th room.\<close>

fun disconnect_sessions ::
  "clock \<Rightarrow> nat \<Rightarrow> string \<Rightarrow> string list \<Rightarrow> redis_store \<Rightarrow> redis_store \<times> emission list" where
  "disconnect_sessions clk i uid [] r = (r, [])"
| "disconnect_sessions clk i uid (roomId # activeSessions) r =
     (let sessionKey = SESSION_PREFIX @ roomId
      in case redis_get r sessionKey of
           None \<Rightarrow> disconnect_sessions clk (Suc i) uid activeSessions r
         | Some s \<Rightarrow>
             let session = remove_user uid s
             in if 0 < length (activeUsers session)
                then let (r', out) = disconnect_sessions clk (Suc i) uid activeSessions
                                       (redis_set r sessionKey session)
                     in (r', (IoTo roomId,
                               CollaborationMsg USER_LEFT roomId uid (clk i) (LeftData uid)) # out)
                else disconnect_sessions clk (Suc i) uid activeSessions
                       (redis_del r sessionKey))"

text \<open>Socket.IO has taken the socket out of its rooms when \<^verbatim>\<open>disconnect\<close> fires.\<close>

definition disconnect :: "clock \<Rightarrow> socket \<Rightarrow> world \<Rightarrow> world \<times> emission list" where
  "disconnect clk sock w =
     (let uid = auth_userId sock;
          sid = socket_id sock;
          w1 = w\<lparr>rooms := (\<lambda>room. rooms w room - {sid})\<rparr>
      in case redis w1 of
           None \<Rightarrow> (w1, [])
         | Some r \<Rightarrow>
             let userSessionsKey = USER_SESSIONS_PREFIX @ uid;
                 (r1, out) = disconnect_sessions clk 0 uid (redis_smembers r userSessionsKey) r
             in (w1\<lparr>redis := Some (redis_del r1 userSessionsKey)\<rparr>, out))"

subsection \<open>The handler of \<^verbatim>\<open>cursor\<close>\<close>

record cursor_data =
  cursor_entityType :: entity_type
  cursor_entityId :: string
  cursor_pos :: cursor_position

text \<open>Clock read sites: 0 the user's \<^verbatim>\<open>lastActivity\<close>, 1 the timestamp of the broadcast.\<close>

definition cursor :: "clock \<Rightarrow> socket \<Rightarrow> cursor_data \<Rightarrow> world \<Rightarrow> world \<times> emission list" where
  "cursor clk sock data w =
     (let uid = auth_userId sock;
          sid = socket_id sock;
          position = cursor_pos data;
          roomId = roomId_of (cursor_entityType data) (cursor_entityId data);
          sessionKey = SESSION_PREFIX @ roomId;
          w1 = (case redis w of
                  None \<Rightarrow> w
                | Some r \<Rightarrow>
                    (case redis_get r sessionKey of
                       None \<Rightarrow> w
                     | Some s \<Rightarrow>
                         (case map_of (activeUsers s) uid of
                            None \<Rightarrow> w
                          | Some u \<Rightarrow>
                              w\<lparr>redis := Some (redis_set r sessionKey
                                  (s\<lparr>activeUsers := AList.update uid
                                        (u\<lparr>user_cursor := Some position,
                                           user_lastActivity := clk 0\<rparr>)
                                        (activeUsers s)\<rparr>))\<rparr>)))
      in (w1, [(SocketTo sid roomId,
                CollaborationMsg CURSOR_MOVED roomId uid (clk 1) (CursorData uid position))]))"

subsection \<open>The handler of \<^verbatim>\<open>block:edit\<close>\<close>

record edit_data =
  edit_entityType :: entity_type
  edit_entityId :: string
  edit_blockId :: string
  edit_operation :: edit_operation

text \<open>The lock check: the holder of a lock on the block that belongs to another user and
  whose expiry is greater than the present time, when there is one.\<close>

definition locked_by_other :: "session_metadata \<Rightarrow> string \<Rightarrow> string \<Rightarrow> int \<Rightarrow> string option" where
  "locked_by_other session blockId uid now =
     (case map_of (locks session) blockId of
        None \<Rightarrow> None
      | Some l \<Rightarrow>
          if lock_userId l \<noteq> uid \<and> lock_expires l > now
          then Some (lock_userId l) else None)"

text \<open>\<^verbatim>\<open>operations.slice(-OPERATIONS_MAX_LENGTH)\<close> when the history is too long.\<close>

definition limit_operations :: "block_edit_operation list \<Rightarrow> block_edit_operation list" where
  "limit_operations ops =
     (if length ops > OPERATIONS_MAX_LENGTH
      then drop (length ops - OPERATIONS_MAX_LENGTH) ops else ops)"

text \<open>What the handler does with the session it has read, between \<^verbatim>\<open>redis.get\<close> and
  \<^verbatim>\<open>redis.set\<close>: \<open>Inl holder\<close> when the block is locked by another user, else the
  session with the lock of the caller installed and the operation appended.
  Clock read sites: 0 the lock check, 1 the expiry of the new lock, 2 the timestamp of
  the operation.\<close>

definition acquire ::
  "clock \<Rightarrow> session_metadata \<Rightarrow> string \<Rightarrow> edit_operation \<Rightarrow> string
     \<Rightarrow> string + session_metadata" where
  "acquire clk session blockId operation uid =
     (case locked_by_other session blockId uid (clk 0) of
        Some holder \<Rightarrow> Inl holder
      | None \<Rightarrow>
          Inr (session
                \<lparr>locks := js_assign blockId
                    \<lparr>lock_userId = uid, lock_expires = clk 1 + LOCK_TIMEOUT\<rparr> (locks session),
                 operations := limit_operations (operations session @
                    [\<lparr>operation_fields = operation, operation_blockId = blockId,
                      operation_userId = uid, operation_timestamp = clk 2\<rparr>])\<rparr>))"

text \<open>The two accesses to the store of the lock step, each an \<^verbatim>\<open>await\<close> of its own:
  \<open>acquire_read\<close> is \<^verbatim>\<open>redis.get(sessionKey)\<close>, \<open>acquire_write\<close> decides on the session
  that was read and, unless the block is locked, writes it with \<^verbatim>\<open>redis.set\<close>. With no
  session under the key nothing is checked and nothing written.\<close>

definition acquire_read :: "redis_store \<Rightarrow> string \<Rightarrow> session_metadata option" where
  "acquire_read r sessionKey = redis_get r sessionKey"

definition acquire_write ::
  "clock \<Rightarrow> redis_store \<Rightarrow> string \<Rightarrow> session_metadata option \<Rightarrow> string \<Rightarrow> edit_operation
     \<Rightarrow> string \<Rightarrow> redis_store \<times> (string + unit)" where
  "acquire_write clk r sessionKey sessionData blockId operation uid =
     (case sessionData of
        None \<Rightarrow> (r, Inr ())
      | Some session \<Rightarrow>
          (case acquire clk session blockId operation uid of
             Inl holder \<Rightarrow> (r, Inl holder)
           | Inr session' \<Rightarrow> (redis_set r sessionKey session', Inr ())))"

text \<open>The lock step of one handler run, with \<^verbatim>\<open>if (redis)\<close> around it.\<close>

definition lock_step ::
  "clock \<Rightarrow> redis_store option \<Rightarrow> string \<Rightarrow> string \<Rightarrow> edit_operation \<Rightarrow> string
     \<Rightarrow> redis_store option \<times> (string + unit)" where
  "lock_step clk rd sessionKey blockId operation uid =
     (case rd of
        None \<Rightarrow> (None, Inr ())
      | Some r \<Rightarrow>
          let (r', res) = acquire_write clk r sessionKey (acquire_read r sessionKey)
                            blockId operation uid
          in (Some r', res))"

text \<open>The release of the lock in the inner \<^verbatim>\<open>catch\<close>: the lock is deleted and the session
  written only when the lock on the block is the caller's.\<close>

definition release_lock :: "redis_store \<Rightarrow> string \<Rightarrow> string \<Rightarrow> string \<Rightarrow> redis_store" where
  "release_lock r sessionKey blockId uid =
     (case redis_get r sessionKey of
        None \<Rightarrow> r
      | Some session \<Rightarrow>
          (case map_of (locks session) blockId of
             None \<Rightarrow> r
           | Some l \<Rightarrow>
               if lock_userId l = uid
               then redis_set r sessionKey
                      (session\<lparr>locks := AList.delete blockId (locks session)\<rparr>)
               else r))"

text \<open>Clock read sites: 0 to 2 as in \<open>acquire\<close>, 3 \<^verbatim>\<open>updatedAt\<close>, 4 the timestamp of the
  broadcast, 5 the timestamp of the operation in the broadcast.\<close>

definition block_edit ::
  "faults \<Rightarrow> clock \<Rightarrow> socket \<Rightarrow> edit_data \<Rightarrow> world \<Rightarrow> world \<times> emission list" where
  "block_edit f clk sock data w =
     (let uid = auth_userId sock;
          sid = socket_id sock;
          blockId = edit_blockId data;
          operation = edit_operation data;
          roomId = roomId_of (edit_entityType data) (edit_entityId data);
          sessionKey = SESSION_PREFIX @ roomId
      in case lock_step clk (redis w) sessionKey blockId operation uid of
           (rd, Inl holder) \<Rightarrow>
             (w, [(Emit sid, ErrorMsg ''BLOCK_LOCKED''
                     ''This block is currently being edited by another user''
                     (LockedDetails blockId holder))])
         | (rd, Inr _) \<Rightarrow>
             (case persist_edit f (clk 3) (db w) blockId operation uid of
                (db', Inr newContent) \<Rightarrow>
                  (w\<lparr>redis := rd, db := db'\<rparr>,
                   [(IoTo roomId, CollaborationMsg BLOCK_UPDATED roomId uid (clk 4)
                       (BlockUpdatedData blockId
                          \<lparr>operation_fields = operation, operation_blockId = blockId,
                           operation_userId = uid, operation_timestamp = clk 5\<rparr>
                          newContent))])
              | (db', Inl msg) \<Rightarrow>
                  (w\<lparr>redis := map_option (\<lambda>r. release_lock r sessionKey blockId uid) rd,
                     db := db'\<rparr>,
                   [(Emit sid, ErrorMsg ''EDIT_ERROR'' ''Failed to apply edit operation''
                       (EditDetails blockId msg))])))"

subsection \<open>Two lock steps on one store\<close>

text \<open>A request of a lock step: the clock of the run, the block, the operation and the
  user.\<close>

record acquire_request =
  req_clock :: clock
  req_blockId :: string
  req_operation :: edit_operation
  req_userId :: string

text \<open>The two orders in which the accesses of two runs \<open>a\<close> and \<open>b\<close> on the same session
  key can reach the store when \<open>a\<close> reads first: \<open>a\<close> writes before \<open>b\<close> reads
  (\<open>acquire_in_turn\<close>), or both read before either writes (\<open>acquire_interleaved\<close>). The
  result is the final store and the outcome of each run.\<close>

definition acquire_in_turn ::
  "redis_store \<Rightarrow> string \<Rightarrow> acquire_request \<Rightarrow> acquire_request
     \<Rightarrow> redis_store \<times> (string + unit) \<times> (string + unit)" where
  "acquire_in_turn r sessionKey a b =
     (let dataA = acquire_read r sessionKey;
          (r1, resA) = acquire_write (req_clock a) r sessionKey dataA
                         (req_blockId a) (req_operation a) (req_userId a);
          dataB = acquire_read r1 sessionKey;
          (r2, resB) = acquire_write (req_clock b) r1 sessionKey dataB
                         (req_blockId b) (req_operation b) (req_userId b)
      in (r2, resA, resB))"

definition acquire_interleaved ::
  "redis_store \<Rightarrow> string \<Rightarrow> acquire_request \<Rightarrow> acquire_request
     \<Rightarrow> redis_store \<times> (string + unit) \<times> (string + unit)" where
  "acquire_interleaved r sessionKey a b =
     (let dataA = acquire_read r sessionKey;
          dataB = acquire_read r sessionKey;
          (r1, resA) = acquire_write (req_clock a) r sessionKey dataA
                         (req_blockId a) (req_operation a) (req_userId a);
          (r2, resB) = acquire_write (req_clock b) r1 sessionKey dataB
                         (req_blockId b) (req_operation b) (req_userId b)
      in (r2, resA, resB))"

subsection \<open>The periodic cleanup\<close>

text \<open>One session key of the sweep: the locks whose expiry is less than the present time
  are deleted, and the session is written when one was.\<close>

definition cleanup_key :: "int \<Rightarrow> string \<Rightarrow> redis_store \<Rightarrow> redis_store" where
  "cleanup_key now sessionKey r =
     (case redis_get r sessionKey of
        None \<Rightarrow> r
      | Some session \<Rightarrow>
          let kept = filter (\<lambda>(blockId, l). \<not> lock_expires l < now) (locks session);
              lockUpdated = (length kept < length (locks session))
          in if lockUpdated then redis_set r sessionKey (session\<lparr>locks := kept\<rparr>) else r)"

definition cleanup :: "int \<Rightarrow> world \<Rightarrow> world" where
  "cleanup now w =
     (case redis w of
        None \<Rightarrow> w
      | Some r \<Rightarrow> w\<lparr>redis := Some (fold (cleanup_key now) (redis_keys r SESSION_PREFIX) r)\<rparr>)"

subsection \<open>Events\<close>

text \<open>The events that change the Redis store: the five handlers, the cleanup, and the
  expiry of a key. The handlers of blocks and comments other than \<^verbatim>\<open>block:edit\<close> do not
  use Redis.\<close>

datatype event =
    Join clock socket join_data
  | Leave clock socket room_data
  | Cursor clock socket cursor_data
  | BlockEdit faults clock socket edit_data
  | Disconnect clock socket
  | Cleanup int
  | Expire string

fun step :: "event \<Rightarrow> world \<Rightarrow> world \<times> emission list" where
  "step (Join clk sock data) w = join clk sock data w"
| "step (Leave clk sock data) w = leave clk sock data w"
| "step (Cursor clk sock data) w = cursor clk sock data w"
| "step (BlockEdit f clk sock data) w = block_edit f clk sock data w"
| "step (Disconnect clk sock) w = disconnect clk sock w"
| "step (Cleanup now) w = (cleanup now w, [])"
| "step (Expire k) w = (w\<lparr>redis := map_option (\<lambda>r. redis_del r k) (redis w)\<rparr>, [])"

text \<open>The events of a list, each run from its first to its last statement before the
  next one starts: no access to the store of one run comes between two accesses of
  another.\<close>

fun run_in_turn :: "event list \<Rightarrow> world \<Rightarrow> world" where
  "run_in_turn [] w = w"
| "run_in_turn (e # es) w = run_in_turn es (fst (step e w))"



definition empty_world :: "bool \<Rightarrow> database \<Rightarrow> world" where
  "empty_world with_redis d =
     \<lparr>redis = (if with_redis then Some \<lparr>strings = [], sets = []\<rparr> else None),
      db = d, rooms = (\<lambda>room. {})\<rparr>"

subsection \<open>Delivery\<close>

text \<open>The messages of a handler run that reach a socket, and the test for a
  \<^verbatim>\<open>collaboration\<close> message of a given event.\<close>

definition delivered :: "(string \<Rightarrow> string set) \<Rightarrow> emission list \<Rightarrow> string \<Rightarrow> message list" where
  "delivered rms out sid = map snd (filter (\<lambda>(t, m). sid \<in> recipients rms t) out)"

fun is_event :: "collaboration_event \<Rightarrow> message \<Rightarrow> bool" where
  "is_event ev (CollaborationMsg e sessionId uid ts d) = (e = ev)"
| "is_event ev (ErrorMsg c m d) = False"
| "is_event ev (SessionMsg i t e us la) = False"

fun is_error :: "string \<Rightarrow> message \<Rightarrow> bool" where
  "is_error code (ErrorMsg c m d) = (c = code)"
| "is_error code (CollaborationMsg e sessionId uid ts d) = False"
| "is_error code (SessionMsg i t e us la) = False"

subsection \<open>A session of two users\<close>

text \<open>Alice created the sermon \<^verbatim>\<open>d1\<close>, Bob is a collaborator; block \<^verbatim>\<open>b1\<close> is empty. Both
  join, then Alice inserts \<^verbatim>\<open>Grace\<close> at position 0 at time 1000.\<close>

definition alice :: socket where
  "alice = \<lparr>socket_id = ''s1'', auth_userId = ''alice''\<rparr>"

definition bob :: socket where
  "bob = \<lparr>socket_id = ''s2'', auth_userId = ''bob''\<rparr>"

definition example_db :: database where
  "example_db =
     \<lparr>sermonBlock = [''b1'' \<mapsto> \<lparr>content = [], updatedAt = 0\<rparr>],
      sermonBlockVersion = [],
      user = [''alice'' \<mapsto> \<lparr>firstName = ''Alice'', lastName = ''A'', avatarUrl = None\<rparr>,
              ''bob'' \<mapsto> \<lparr>firstName = ''Bob'', lastName = ''B'', avatarUrl = None\<rparr>],
      sermon = [''d1'' \<mapsto> \<lparr>createdById = ''alice'', collaborators = [''bob'']\<rparr>],
      series = Map.empty\<rparr>"

text \<open>A clock whose reads during one run all return the same instant.\<close>

definition at :: "int \<Rightarrow> clock" where
  "at t = (\<lambda>i. t)"

definition join_d1 :: join_data where
  "join_d1 = \<lparr>join_entityType = Sermon, join_entityId = ''d1'', join_displayName = None\<rparr>"


definition insert_op :: "int \<Rightarrow> string \<Rightarrow> edit_operation" where
  "insert_op p t = \<lparr>op_type = Insert, op_position = Some p, op_length = None, op_text = Some t\<rparr>"

definition edit_b1 :: "edit_operation \<Rightarrow> edit_data" where
  "edit_b1 operation =
     \<lparr>edit_entityType = Sermon, edit_entityId = ''d1'', edit_blockId = ''b1'',
      edit_operation = operation\<rparr>"

definition after_joins :: world where
  "after_joins =
     run_in_turn [Join (at 0) alice join_d1, Join (at 10) bob join_d1]
       (empty_world True example_db)"

definition after_edit :: world where
  "after_edit =
     run_in_turn [BlockEdit no_faults (at 1000) alice (edit_b1 (insert_op 0 ''Grace''))]
       after_joins"

definition key_d1 :: string where
  "key_d1 = SESSION_PREFIX @ roomId_of Sermon ''d1''"

text \<open>The session record and the store after the two joins and after Alice's edit.\<close>

definition session_after_joins :: session_metadata where
  "session_after_joins =
     \<lparr>entityType = Sermon, entityId = ''d1'', lastActivity = 10,
      activeUsers =
        [(''alice'', \<lparr>user_id = ''alice'', user_name = ''Alice A'', user_avatarUrl = None,
            user_cursor = None, user_lastActivity = 0\<rparr>),
         (''bob'', \<lparr>user_id = ''bob'', user_name = ''Bob B'', user_avatarUrl = None,
            user_cursor = None, user_lastActivity = 10\<rparr>)],
      operations = [], locks = []\<rparr>"

definition session_after_edit :: session_metadata where
  "session_after_edit =
     session_after_joins
       \<lparr>operations :=
          [\<lparr>operation_fields = insert_op 0 ''Grace'', operation_blockId = ''b1'',
            operation_userId = ''alice'', operation_timestamp = 1000\<rparr>],
        locks := [(''b1'', \<lparr>lock_userId = ''alice'', lock_expires = 31000\<rparr>)]\<rparr>"

definition store_with :: "session_metadata \<Rightarrow> redis_store" where
  "store_with session =
     \<lparr>strings = [(key_d1, session)],
      sets = [(USER_SESSIONS_PREFIX @ ''alice'', [''sermon:d1'']),
              (USER_SESSIONS_PREFIX @ ''bob'', [''sermon:d1''])]\<rparr>"

text \<open>A lock step on block \<^verbatim>\<open>b1\<close> by the user of a socket, all clock reads at \<open>t\<close>.\<close>

definition request_at :: "int \<Rightarrow> socket \<Rightarrow> acquire_request" where
  "request_at t sock =
     \<lparr>req_clock = at t, req_blockId = ''b1'', req_operation = insert_op 0 ''x'',
      req_userId = auth_userId sock\<rparr>"

definition cursor_b1 :: cursor_data where
  "cursor_b1 =
     \<lparr>cursor_entityType = Sermon, cursor_entityId = ''d1'',
      cursor_pos = \<lparr>cursor_blockId = ''b1'', cursor_offset = 3\<rparr>\<rparr>"

text \<open>The world, the session record and the store after Alice alone has joined.\<close>

definition after_alice :: world where
  "after_alice = run_in_turn [Join (at 0) alice join_d1] (empty_world True example_db)"








text \<open>Every user listed in the session of a room is an active participant: a socket of
  that user is in the room.\<close>

definition store_present ::
  "(string \<Rightarrow> string) \<Rightarrow> (string \<Rightarrow> string set) \<Rightarrow> redis_store \<Rightarrow> bool" where
  "store_present owner rms r =
     (\<forall>room s u. redis_get r (SESSION_PREFIX @ room) = Some s \<and> u \<in> fst ` set (activeUsers s)
        \<longrightarrow> (\<exists>sid \<in> rms room. owner sid = u))"





section \<open>Properties of the edit operations\<close>

lemma clamp_index_le: "clamp_index i n \<le> n"
  by (simp add: clamp_index_def)

lemma substring_prefix: "substring s 0 (Some p) = take (clamp_index p (length s)) s"
  by (simp add: substring_def clamp_index_def Let_def)

lemma substring_suffix: "substring s p None = drop (clamp_index p (length s)) s"
  by (simp add: substring_def Let_def max_def min_def clamp_index_le)

lemma apply_insert:
  "op_type operation = Insert \<Longrightarrow> op_position operation = Some p \<Longrightarrow>
   op_text operation = Some t \<Longrightarrow>
   apply_operation c operation =
     take (clamp_index p (length c)) c @ t @ drop (clamp_index p (length c)) c"
  by (simp add: apply_operation_def truthy_text_def substring_prefix substring_suffix)

lemma persist_edit_ok:
  "sermonBlock tables blockId = Some block \<Longrightarrow>
   snd (persist_edit no_faults now tables blockId operation userId) =
     Inr (apply_operation (content block) operation)"
  by (simp add: persist_edit_def no_faults_def Let_def)

lemma persist_edit_ok_content:
  "sermonBlock tables blockId = Some block \<Longrightarrow>
   map_option content
     (sermonBlock (fst (persist_edit no_faults now tables blockId operation userId)) blockId) =
     Some (apply_operation (content block) operation)"
  by (simp add: persist_edit_def no_faults_def Let_def)

lemma block_edit_applies:
  assumes "snd (lock_step clk (redis w)
             (SESSION_PREFIX @ roomId_of (edit_entityType data) (edit_entityId data))
             (edit_blockId data) (edit_operation data) (auth_userId sock)) = Inr ()"
    and "sermonBlock (db w) (edit_blockId data) = Some block"
  shows "snd (block_edit no_faults clk sock data w) =
           [(IoTo (roomId_of (edit_entityType data) (edit_entityId data)),
             CollaborationMsg BLOCK_UPDATED
               (roomId_of (edit_entityType data) (edit_entityId data))
               (auth_userId sock) (clk 4)
               (BlockUpdatedData (edit_blockId data)
                  \<lparr>operation_fields = edit_operation data,
                   operation_blockId = edit_blockId data,
                   operation_userId = auth_userId sock, operation_timestamp = clk 5\<rparr>
                  (apply_operation (content block) (edit_operation data))))]"
  using assms
  by (cases "lock_step clk (redis w)
        (SESSION_PREFIX @ roomId_of (edit_entityType data) (edit_entityId data))
        (edit_blockId data) (edit_operation data) (auth_userId sock)")
     (simp add: block_edit_def Let_def persist_edit_def no_faults_def)

text \<open>
  Claim C3. An insert with a position and a text splices the text into the content at the
  position clamped into \<open>[0, length]\<close>: a negative position inserts at the front, a
  position past the end appends, a position in range is used as it is. With the block
  present and no database fault the edit is persisted with that content and is not an
  error, whatever the position: a \<^verbatim>\<open>block:edit\<close> that the lock step does not refuse emits
  the broadcast of the update with the spliced content and nothing else.
\<close>

theorem C3_insert_splices_at_clamped_position:
  assumes "op_type operation = Insert"
    and "op_position operation = Some p"
    and "op_text operation = Some t"
    and "sermonBlock tables blockId = Some block"
  shows "\<exists>k. k = nat (min (max p 0) (int (length (content block))))
           \<and> k \<le> length (content block)
           \<and> (p < 0 \<longrightarrow> k = 0)
           \<and> (0 \<le> p \<and> p \<le> int (length (content block)) \<longrightarrow> int k = p)
           \<and> (int (length (content block)) < p \<longrightarrow> k = length (content block))
           \<and> apply_operation (content block) operation =
                take k (content block) @ t @ drop k (content block)
           \<and> snd (persist_edit no_faults now tables blockId operation userId) =
                Inr (take k (content block) @ t @ drop k (content block))
           \<and> map_option content
                (sermonBlock (fst (persist_edit no_faults now tables blockId operation userId))
                   blockId) =
                Some (take k (content block) @ t @ drop k (content block))
           \<and> (\<forall>w sock data clk.
                 db w = tables \<and> edit_blockId data = blockId \<and> edit_operation data = operation
                 \<and> snd (lock_step clk (redis w)
                        (SESSION_PREFIX @ roomId_of (edit_entityType data) (edit_entityId data))
                        blockId operation (auth_userId sock)) = Inr ()
               \<longrightarrow> snd (block_edit no_faults clk sock data w) =
                     [(IoTo (roomId_of (edit_entityType data) (edit_entityId data)),
                       CollaborationMsg BLOCK_UPDATED
                         (roomId_of (edit_entityType data) (edit_entityId data))
                         (auth_userId sock) (clk 4)
                         (BlockUpdatedData blockId
                            \<lparr>operation_fields = operation, operation_blockId = blockId,
                             operation_userId = auth_userId sock,
                             operation_timestamp = clk 5\<rparr>
                            (take k (content block) @ t @ drop k (content block))))])"
proof -
  let ?c = "content block"
  let ?k = "clamp_index p (length ?c)"
  have spl: "apply_operation ?c operation = take ?k ?c @ t @ drop ?k ?c"
    using assms(1-3) by (rule apply_insert)
  have k1: "?k = nat (min (max p 0) (int (length ?c)))"
    by (simp add: clamp_index_def)
  have k2: "?k \<le> length ?c"
    by (rule clamp_index_le)
  have k3: "p < 0 \<longrightarrow> ?k = 0"
    by (simp add: clamp_index_def)
  have k4: "0 \<le> p \<and> p \<le> int (length ?c) \<longrightarrow> int ?k = p"
    by (simp add: clamp_index_def)
  have k5: "int (length ?c) < p \<longrightarrow> ?k = length ?c"
    by (simp add: clamp_index_def)
  have p1: "snd (persist_edit no_faults now tables blockId operation userId) =
      Inr (take ?k ?c @ t @ drop ?k ?c)"
    unfolding spl [symmetric] by (rule persist_edit_ok [OF assms(4)])
  have p2: "map_option content
      (sermonBlock (fst (persist_edit no_faults now tables blockId operation userId)) blockId) =
      Some (take ?k ?c @ t @ drop ?k ?c)"
    unfolding spl [symmetric] by (rule persist_edit_ok_content [OF assms(4)])
  have h: "\<forall>w sock data clk.
      db w = tables \<and> edit_blockId data = blockId \<and> edit_operation data = operation
      \<and> snd (lock_step clk (redis w)
             (SESSION_PREFIX @ roomId_of (edit_entityType data) (edit_entityId data))
             blockId operation (auth_userId sock)) = Inr ()
      \<longrightarrow> snd (block_edit no_faults clk sock data w) =
          [(IoTo (roomId_of (edit_entityType data) (edit_entityId data)),
            CollaborationMsg BLOCK_UPDATED
              (roomId_of (edit_entityType data) (edit_entityId data))
              (auth_userId sock) (clk 4)
              (BlockUpdatedData blockId
                 \<lparr>operation_fields = operation, operation_blockId = blockId,
                  operation_userId = auth_userId sock, operation_timestamp = clk 5\<rparr>
                 (take ?k ?c @ t @ drop ?k ?c)))]"
  proof (intro allI impI, elim conjE)
    fix w :: world and sock :: socket and data :: edit_data and clk :: clock
    assume w: "db w = tables" "edit_blockId data = blockId" "edit_operation data = operation"
      and ok: "snd (lock_step clk (redis w)
        (SESSION_PREFIX @ roomId_of (edit_entityType data) (edit_entityId data))
        blockId operation (auth_userId sock)) = Inr ()"
    have blk: "sermonBlock (db w) (edit_blockId data) = Some block"
      using w assms(4) by simp
    from block_edit_applies
      [where clk = clk and sock = sock and w = w and data = data and block = block] ok w blk
    show "snd (block_edit no_faults clk sock data w) =
        [(IoTo (roomId_of (edit_entityType data) (edit_entityId data)),
          CollaborationMsg BLOCK_UPDATED
            (roomId_of (edit_entityType data) (edit_entityId data))
            (auth_userId sock) (clk 4)
            (BlockUpdatedData blockId
               \<lparr>operation_fields = operation, operation_blockId = blockId,
                operation_userId = auth_userId sock, operation_timestamp = clk 5\<rparr>
               (take ?k ?c @ t @ drop ?k ?c)))]"
      by (simp add: spl)
  qed
  show ?thesis
    by (rule exI [of _ ?k]) (intro conjI k1 k2 k3 k4 k5 spl p1 p2 h)
qed

theorem C3_insert_witness:
  "apply_operation ''Grace'' (insert_op 99 ''!'') = ''Grace!''
   \<and> apply_operation ''Grace'' (insert_op (- 5) ''!'') = ''!Grace''
   \<and> apply_operation ''Grace'' (insert_op 2 ''!'') = ''Gr!ace''
   \<and> snd (persist_edit no_faults 7 (db after_edit) ''b1'' (insert_op 99 ''!'') ''alice'') =
       Inr ''Grace!''
   \<and> map (\<lambda>e. case snd e of
                 CollaborationMsg ev room uid ts (BlockUpdatedData b operation c) \<Rightarrow> c
               | _ \<Rightarrow> [])
       (snd (block_edit no_faults (at 2000) alice (edit_b1 (insert_op 99 ''!'')) after_edit)) =
       [''Grace!'']"
proof -
  let ?blk = "\<lparr>content = ''Grace'', updatedAt = 1000\<rparr>"
  let ?tables = "db after_edit"
  let ?data = "edit_b1 (insert_op 99 ''!'')"
  have blk: "sermonBlock ?tables ''b1'' = Some ?blk"
    by code_simp
  note far = C3_insert_splices_at_clamped_position
    [of "insert_op 99 ''!''" 99 "''!''" ?tables "''b1''" ?blk 7 "''alice''", OF _ _ _ blk]
  have a: "apply_operation ''Grace'' (insert_op 99 ''!'') = ''Grace!''
      \<and> snd (persist_edit no_faults 7 ?tables ''b1'' (insert_op 99 ''!'') ''alice'') =
          Inr ''Grace!''"
    using far by (simp add: insert_op_def)
  have b: "apply_operation ''Grace'' (insert_op (- 5) ''!'') = ''!Grace''"
    using C3_insert_splices_at_clamped_position
      [of "insert_op (- 5) ''!''" "- 5" "''!''" ?tables "''b1''" ?blk 7 "''alice''", OF _ _ _ blk]
    by (simp add: insert_op_def)
  have c: "apply_operation ''Grace'' (insert_op 2 ''!'') = ''Gr!ace''"
    using C3_insert_splices_at_clamped_position
      [of "insert_op 2 ''!''" 2 "''!''" ?tables "''b1''" ?blk 7 "''alice''", OF _ _ _ blk]
    by (simp add: insert_op_def)
  have ok: "snd (lock_step (at 2000) (redis after_edit)
      (SESSION_PREFIX @ roomId_of (edit_entityType ?data) (edit_entityId ?data))
      ''b1'' (insert_op 99 ''!'') (auth_userId alice)) = Inr ()"
    by code_simp
  have "\<exists>m. snd (block_edit no_faults (at 2000) alice ?data after_edit) =
      [(IoTo (roomId_of (edit_entityType ?data) (edit_entityId ?data)),
        CollaborationMsg BLOCK_UPDATED (roomId_of (edit_entityType ?data) (edit_entityId ?data))
          (auth_userId alice) (at 2000 4)
          (BlockUpdatedData ''b1'' m ''Grace!''))]"
    using far ok by (simp add: insert_op_def edit_b1_def)
  then have d: "map (\<lambda>e. case snd e of
        CollaborationMsg ev room uid ts (BlockUpdatedData b operation c) \<Rightarrow> c | _ \<Rightarrow> [])
      (snd (block_edit no_faults (at 2000) alice ?data after_edit)) = [''Grace!'']"
    by auto
  show ?thesis
    using a b c d by simp
qed

lemma length_apply_insert:
  "op_type operation = Insert \<Longrightarrow> op_position operation = Some p \<Longrightarrow>
   op_text operation = Some t \<Longrightarrow>
   length (apply_operation c operation) = length c + length t"
  using clamp_index_le [of p "length c"] by (simp add: apply_insert)

text \<open>
  Claim C6, as amended. An insert with a position and a non-empty text is not idempotent:
  applying it twice gives a content different from applying it once (each application
  makes the content longer by the length of the text).
\<close>

theorem C6_insert_with_text_not_idempotent:
  assumes "op_type operation = Insert"
    and "op_position operation = Some p"
    and "op_text operation = Some t"
    and "t \<noteq> []"
  shows "apply_operation (apply_operation c operation) operation \<noteq> apply_operation c operation"
proof
  assume eq: "apply_operation (apply_operation c operation) operation =
    apply_operation c operation"
  have "length (apply_operation (apply_operation c operation) operation) =
      length (apply_operation c operation) + length t"
    using assms(1-3) by (rule length_apply_insert)
  with eq have "length t = 0"
    by simp
  with assms(4) show False
    by simp
qed

theorem C6_insert_with_text_witness:
  "apply_operation (apply_operation ''abc'' (insert_op 1 ''x'')) (insert_op 1 ''x'')
     \<noteq> apply_operation ''abc'' (insert_op 1 ''x'')"
  using C6_insert_with_text_not_idempotent [of "insert_op 1 ''x''" 1 "''x''" "''abc''"]
  by (simp add: insert_op_def)

text \<open>
  Claim C6, as stated, fails: an insert of the empty text leaves the content as it is, so
  applying it twice gives the same content as applying it once.
\<close>

theorem C6_empty_insert_counterexample:
  "apply_operation (apply_operation ''abc'' (insert_op 0 [])) (insert_op 0 [])
     = apply_operation ''abc'' (insert_op 0 [])"
  by (simp add: apply_operation_def insert_op_def truthy_text_def)

lemma apply_operation_falsy:
  assumes "(op_type operation = Insert
              \<and> (op_position operation = None \<or> op_text operation = None
                  \<or> op_text operation = Some []))
         \<or> (op_type operation = Delete
              \<and> (op_position operation = None \<or> op_length operation = None
                  \<or> op_length operation = Some 0))
         \<or> (op_type operation = Replace \<and> op_text operation = None)"
  shows "apply_operation c operation = c"
  using assms
  by (auto simp: apply_operation_def truthy_text_def truthy_number_def
      split: operation_type.splits option.splits)

text \<open>
  Claim C10. An operation whose required fields are missing or falsy leaves the content as
  it was loaded: an insert without position, without text or with the empty text, a
  delete without position, without length or with length 0, a replace without text. The
  block is then updated with the content it had, and the version entry holds that
  content.
\<close>

theorem C10_falsy_fields_leave_content_unchanged:
  assumes "(op_type operation = Insert
              \<and> (op_position operation = None \<or> op_text operation = None
                  \<or> op_text operation = Some []))
         \<or> (op_type operation = Delete
              \<and> (op_position operation = None \<or> op_length operation = None
                  \<or> op_length operation = Some 0))
         \<or> (op_type operation = Replace \<and> op_text operation = None)"
    and "sermonBlock tables blockId = Some block"
  shows "apply_operation (content block) operation = content block
       \<and> snd (persist_edit no_faults now tables blockId operation userId) =
           Inr (content block)
       \<and> map_option content
           (sermonBlock (fst (persist_edit no_faults now tables blockId operation userId))
              blockId) = Some (content block)
       \<and> sermonBlockVersion (fst (persist_edit no_faults now tables blockId operation userId)) =
           sermonBlockVersion tables @
             [\<lparr>version_blockId = blockId, version_content = content block,
               version_createdById = userId\<rparr>]"
proof -
  have same: "apply_operation (content block) operation = content block"
    using assms(1) by (rule apply_operation_falsy)
  have "sermonBlockVersion (fst (persist_edit no_faults now tables blockId operation userId)) =
      sermonBlockVersion tables @
        [\<lparr>version_blockId = blockId, version_content = apply_operation (content block) operation,
          version_createdById = userId\<rparr>]"
    using assms(2) by (simp add: persist_edit_def no_faults_def Let_def)
  then show ?thesis
    using same persist_edit_ok [OF assms(2), of now operation userId]
      persist_edit_ok_content [OF assms(2), of now operation userId]
    by simp
qed

theorem C10_falsy_fields_witness:
  "apply_operation ''Grace'' \<lparr>op_type = Delete, op_position = Some 1, op_length = Some 0,
      op_text = None\<rparr> = ''Grace''
   \<and> snd (persist_edit no_faults 7
          (example_db\<lparr>sermonBlock := [''b1'' \<mapsto> \<lparr>content = ''Grace'', updatedAt = 0\<rparr>]\<rparr>)
          ''b1'' \<lparr>op_type = Delete, op_position = Some 1, op_length = Some 0, op_text = None\<rparr>
          ''alice'') = Inr ''Grace''"
proof -
  let ?blk = "\<lparr>content = ''Grace'', updatedAt = 0\<rparr>"
  let ?tables = "example_db\<lparr>sermonBlock := [''b1'' \<mapsto> ?blk]\<rparr>"
  let ?op = "\<lparr>op_type = Delete, op_position = Some 1, op_length = Some 0, op_text = None\<rparr>"
  have blk: "sermonBlock ?tables ''b1'' = Some ?blk"
    by simp
  show ?thesis
    using C10_falsy_fields_leave_content_unchanged [of ?op ?tables "''b1''" ?blk 7 "''alice''",
        OF _ blk]
    by simp
qed

section \<open>Properties of the lock step and of \<^verbatim>\<open>block:edit\<close>\<close>

lemma redis_get_set:
  "redis_get (redis_set r k v) k' = (if k' = k then Some v else redis_get r k')"
  by (simp add: redis_get_def redis_set_def update_conv')


lemma lock_step_denied:
  assumes "redis_get r sessionKey = Some session"
    and "map_of (locks session) blockId = Some l"
    and "lock_userId l \<noteq> uid"
    and "clk 0 < lock_expires l"
  shows "lock_step clk (Some r) sessionKey blockId operation uid = (Some r, Inl (lock_userId l))"
  using assms
  by (simp add: lock_step_def acquire_read_def acquire_write_def acquire_def
      locked_by_other_def)

text \<open>
  Claim C1, as amended. Locks are kept per room, in the session record of the room, and
  \<^verbatim>\<open>block:edit\<close> reads the record of the room that the request names. When that session holds
  a lock on the block whose holder \<open>holder\<close> is not the caller and whose expiry is greater
  than the time of the check, \<^verbatim>\<open>block:edit\<close> emits the error \<^verbatim>\<open>BLOCK_LOCKED\<close> with
  \<open>lockedBy = holder\<close> to the caller's socket only and returns: the store, the rooms and the
  database, hence the content of every block, are as before.
\<close>

theorem C1_edit_of_block_locked_by_other_is_refused:
  assumes "redis w = Some r"
    and "redis_get r (SESSION_PREFIX @ roomId_of (edit_entityType data) (edit_entityId data))
           = Some session"
    and "map_of (locks session) (edit_blockId data) = Some l"
    and "lock_userId l = holder"
    and "holder \<noteq> auth_userId sock"
    and "clk 0 < lock_expires l"
  shows "block_edit f clk sock data w =
           (w, [(Emit (socket_id sock),
                 ErrorMsg ''BLOCK_LOCKED'' ''This block is currently being edited by another user''
                   (LockedDetails (edit_blockId data) holder))])
       \<and> sermonBlock (db (fst (block_edit f clk sock data w))) = sermonBlock (db w)"
proof -
  have "lock_step clk (redis w)
      (SESSION_PREFIX @ roomId_of (edit_entityType data) (edit_entityId data))
      (edit_blockId data) (edit_operation data) (auth_userId sock) = (Some r, Inl holder)"
    using lock_step_denied [OF assms(2) assms(3), of "auth_userId sock" clk] assms(1,4,5,6)
    by simp
  then show ?thesis
    by (simp add: block_edit_def Let_def)
qed

lemma block_edit_not_refused:
  assumes "snd (lock_step clk (redis w)
             (SESSION_PREFIX @ roomId_of (edit_entityType data) (edit_entityId data))
             (edit_blockId data) (edit_operation data) (auth_userId sock)) = Inr ()"
  shows "\<forall>e \<in> set (snd (block_edit f clk sock data w)). \<not> is_error ''BLOCK_LOCKED'' (snd e)"
  using assms
  by (auto simp: block_edit_def Let_def split: prod.splits sum.splits)

lemma map_of_js_assign:
  "map_of (js_assign k v obj) k' =
     (if k' = k
      then (if k = ''__proto__'' \<and> map_of obj k = None then None else Some v)
      else map_of obj k')"
  by (auto simp: js_assign_def update_conv')

lemma acquire_installs_lock:
  assumes "acquire clk session blockId operation uid = Inr session'"
  shows "map_of (locks session') blockId =
           (if blockId = ''__proto__'' \<and> map_of (locks session) blockId = None then None
            else Some \<lparr>lock_userId = uid, lock_expires = clk 1 + LOCK_TIMEOUT\<rparr>)"
  using assms
  by (auto simp: acquire_def map_of_js_assign split: option.splits)

lemma expired_lock_is_absent:
  assumes "map_of (locks session) blockId = Some l"
    and "lock_expires l \<le> now"
  shows "locked_by_other session blockId uid now = None"
  using assms by (simp add: locked_by_other_def)

text \<open>
  Claim C5. A lock acquired at time \<open>T\<close> (the clock read that sets its expiry) expires at
  \<open>T + 30000\<close>. At a check time greater than or equal to that, the lock check finds no
  lock for any other user, whose lock step then succeeds and installs that user's own
  lock, and whose \<^verbatim>\<open>block:edit\<close> is not refused with \<^verbatim>\<open>BLOCK_LOCKED\<close>: the check honours a
  lock only while its expiry is strictly greater than the time of the check. (For the
  block id \<^verbatim>\<open>__proto__\<close>, unless the session already has a lock of that name, the
  assignment stores no lock at all, and nothing blocks either.)
\<close>

theorem C5_expired_lock_does_not_block:
  assumes "acquire clkA session0 blockId opA pA = Inr session1"
    and "clkA 1 + 30000 \<le> clkB 0"
  shows "map_of (locks session1) blockId =
           (if blockId = ''__proto__'' \<and> map_of (locks session0) blockId = None then None
            else Some \<lparr>lock_userId = pA, lock_expires = clkA 1 + 30000\<rparr>)
       \<and> locked_by_other session1 blockId pB (clkB 0) = None
       \<and> (\<exists>session2. acquire clkB session1 blockId opB pB = Inr session2
            \<and> map_of (locks session2) blockId =
                (if blockId = ''__proto__'' \<and> map_of (locks session0) blockId = None then None
                 else Some \<lparr>lock_userId = pB, lock_expires = clkB 1 + 30000\<rparr>))
       \<and> (\<forall>w r sock data f.
            redis w = Some r
            \<and> redis_get r (SESSION_PREFIX @ roomId_of (edit_entityType data) (edit_entityId data))
                = Some session1
            \<and> edit_blockId data = blockId \<and> auth_userId sock = pB
            \<longrightarrow> (\<forall>e \<in> set (snd (block_edit f clkB sock data w)).
                   \<not> is_error ''BLOCK_LOCKED'' (snd e)))"
proof -
  have lk: "map_of (locks session1) blockId =
      (if blockId = ''__proto__'' \<and> map_of (locks session0) blockId = None then None
       else Some \<lparr>lock_userId = pA, lock_expires = clkA 1 + 30000\<rparr>)"
    using acquire_installs_lock [OF assms(1)] by (auto simp: LOCK_TIMEOUT_def)
  have free: "locked_by_other session1 blockId p (clkB 0) = None" for p
    using lk assms(2) by (simp add: locked_by_other_def split: if_splits)
  obtain session2 where acq2: "acquire clkB session1 blockId opB pB = Inr session2"
    using free [of pB] by (simp add: acquire_def)
  have "map_of (locks session2) blockId =
      (if blockId = ''__proto__'' \<and> map_of (locks session0) blockId = None then None
       else Some \<lparr>lock_userId = pB, lock_expires = clkB 1 + 30000\<rparr>)"
    using acquire_installs_lock [OF acq2] lk by (auto simp: LOCK_TIMEOUT_def split: if_splits)
  with acq2 have acq: "\<exists>session2. acquire clkB session1 blockId opB pB = Inr session2
      \<and> map_of (locks session2) blockId =
          (if blockId = ''__proto__'' \<and> map_of (locks session0) blockId = None then None
           else Some \<lparr>lock_userId = pB, lock_expires = clkB 1 + 30000\<rparr>)"
    by blast
  have edit: "\<forall>e \<in> set (snd (block_edit f clkB sock data w)).
      \<not> is_error ''BLOCK_LOCKED'' (snd e)"
    if "redis w = Some r"
      and "redis_get r (SESSION_PREFIX @ roomId_of (edit_entityType data) (edit_entityId data))
        = Some session1"
      and "edit_blockId data = blockId" and "auth_userId sock = pB"
    for w r sock data f
  proof (rule block_edit_not_refused)
    show "snd (lock_step clkB (redis w)
        (SESSION_PREFIX @ roomId_of (edit_entityType data) (edit_entityId data))
        (edit_blockId data) (edit_operation data) (auth_userId sock)) = Inr ()"
      using that free [of pB]
      by (simp add: lock_step_def acquire_read_def acquire_write_def acquire_def)
  qed
  show ?thesis
    using lk free [of pB] acq edit by (intro conjI) blast+
qed

lemma persist_edit_fails:
  assumes "findUnique_throws f \<noteq> None \<or> sermonBlock tables blockId = None
             \<or> update_throws f \<noteq> None \<or> create_throws f \<noteq> None"
  shows "\<exists>tables' msg. persist_edit f now tables blockId operation uid = (tables', Inl msg)"
  using assms
  by (auto simp: persist_edit_def Let_def split: option.splits)

lemma release_after_lock_step:
  assumes "lock_step clk rd0 sessionKey blockId operation uid = (rd, Inr ())"
    and "map_option (\<lambda>r. release_lock r sessionKey blockId uid) rd = Some r'"
    and "redis_get r' sessionKey = Some s'"
  shows "map_of (locks s') blockId = None"
proof (cases rd0)
  case None
  with assms(1,2) show ?thesis
    by (simp add: lock_step_def)
next
  case (Some r)
  show ?thesis
  proof (cases "redis_get r sessionKey")
    case None
    with Some assms show ?thesis
      by (auto simp: lock_step_def acquire_read_def acquire_write_def release_lock_def)
  next
    case (Some s)
    with \<open>rd0 = Some r\<close> assms(1) obtain s1 where
      acq: "acquire clk s blockId operation uid = Inr s1"
      and rd: "rd = Some (redis_set r sessionKey s1)"
      by (auto simp: lock_step_def acquire_read_def acquire_write_def split: sum.splits)
    have lk: "map_of (locks s1) blockId = None
        \<or> map_of (locks s1) blockId =
            Some \<lparr>lock_userId = uid, lock_expires = clk 1 + LOCK_TIMEOUT\<rparr>"
      using acquire_installs_lock [OF acq] by (simp split: if_splits)
    then show ?thesis
    proof
      assume none: "map_of (locks s1) blockId = None"
      then have "r' = redis_set r sessionKey s1"
        using assms(2) rd by (simp add: release_lock_def redis_get_set)
      with assms(3) none show ?thesis
        by (simp add: redis_get_set)
    next
      assume "map_of (locks s1) blockId =
        Some \<lparr>lock_userId = uid, lock_expires = clk 1 + LOCK_TIMEOUT\<rparr>"
      then have "r' = redis_set (redis_set r sessionKey s1) sessionKey
          (s1\<lparr>locks := AList.delete blockId (locks s1)\<rparr>)"
        using assms(2) rd by (simp add: release_lock_def redis_get_set)
      with assms(3) have "s' = s1\<lparr>locks := AList.delete blockId (locks s1)\<rparr>"
        by (simp add: redis_get_set)
      then show ?thesis
        by (simp add: delete_conv')
    qed
  qed
qed

lemma release_lock_of_other:
  assumes "redis_get r sessionKey = Some session"
    and "map_of (locks session) blockId = Some l"
    and "lock_userId l \<noteq> uid"
  shows "release_lock r sessionKey blockId uid = r"
  using assms by (simp add: release_lock_def)

text \<open>
  Claim C2. When the lock step of a \<^verbatim>\<open>block:edit\<close> has not refused the edit and its
  persistence fails (the lookup of the block throws or finds no block, the update throws,
  or the creation of the version entry throws), the handler emits exactly one message, the
  error \<^verbatim>\<open>EDIT_ERROR\<close>, to the caller's socket only: there is no \<^verbatim>\<open>collaboration\<close>
  broadcast. Afterwards the session of the room, when the store has one, holds no lock on
  the block. The release itself deletes the lock only when it is the caller's: a lock on
  the block held by another user leaves the store as it is.
\<close>

theorem C2_failed_persistence_releases_lock:
  assumes "sessionKey = SESSION_PREFIX @ roomId_of (edit_entityType data) (edit_entityId data)"
    and "snd (lock_step clk (redis w) sessionKey (edit_blockId data) (edit_operation data)
           (auth_userId sock)) = Inr ()"
    and "findUnique_throws f \<noteq> None \<or> sermonBlock (db w) (edit_blockId data) = None
           \<or> update_throws f \<noteq> None \<or> create_throws f \<noteq> None"
  shows "(\<exists>msg. snd (block_edit f clk sock data w) =
            [(Emit (socket_id sock),
              ErrorMsg ''EDIT_ERROR'' ''Failed to apply edit operation''
                (EditDetails (edit_blockId data) msg))])
       \<and> (\<forall>e \<in> set (snd (block_edit f clk sock data w)).
            recipients (rooms (fst (block_edit f clk sock data w))) (fst e) = {socket_id sock}
            \<and> (\<forall>ev. \<not> is_event ev (snd e)))
       \<and> (\<forall>r' s'. redis (fst (block_edit f clk sock data w)) = Some r'
            \<and> redis_get r' sessionKey = Some s'
            \<longrightarrow> map_of (locks s') (edit_blockId data) = None)
       \<and> (\<forall>r s l. redis_get r sessionKey = Some s
            \<and> map_of (locks s) (edit_blockId data) = Some l
            \<and> lock_userId l \<noteq> auth_userId sock
            \<longrightarrow> release_lock r sessionKey (edit_blockId data) (auth_userId sock) = r)"
proof -
  obtain rd where ls: "lock_step clk (redis w) sessionKey (edit_blockId data)
      (edit_operation data) (auth_userId sock) = (rd, Inr ())"
    using assms(2) by (cases "lock_step clk (redis w) sessionKey (edit_blockId data)
      (edit_operation data) (auth_userId sock)") auto
  obtain db' msg where pe: "persist_edit f (clk 3) (db w) (edit_blockId data)
      (edit_operation data) (auth_userId sock) = (db', Inl msg)"
    using persist_edit_fails [OF assms(3)] by blast
  have be: "block_edit f clk sock data w =
      (w\<lparr>redis := map_option (\<lambda>r. release_lock r sessionKey (edit_blockId data)
            (auth_userId sock)) rd, db := db'\<rparr>,
       [(Emit (socket_id sock),
         ErrorMsg ''EDIT_ERROR'' ''Failed to apply edit operation''
           (EditDetails (edit_blockId data) msg))])"
    using ls pe by (simp add: block_edit_def Let_def assms(1))
  have released: "map_of (locks s') (edit_blockId data) = None"
    if "redis (fst (block_edit f clk sock data w)) = Some r'"
      and "redis_get r' sessionKey = Some s'" for r' s'
    using release_after_lock_step [OF ls _ that(2)] that(1) be by simp
  show ?thesis
    using be released release_lock_of_other by auto
qed

text \<open>
  Claim C9. With the Redis client \<^verbatim>\<open>null\<close>, \<^verbatim>\<open>block:edit\<close> checks no lock and installs none:
  the client stays \<^verbatim>\<open>null\<close>, no message of the handler is the error \<^verbatim>\<open>BLOCK_LOCKED\<close>, and
  the database after the handler is what the persistence of the edit on the database
  before gives. With the block present and no database fault, the block holds the
  operation applied to its content and the update is broadcast to the room.
\<close>

theorem C9_without_redis_edit_is_applied_unlocked:
  assumes "redis w = None"
  shows "redis (fst (block_edit f clk sock data w)) = None
       \<and> (\<forall>e \<in> set (snd (block_edit f clk sock data w)).
            \<not> is_error ''BLOCK_LOCKED'' (snd e))
       \<and> db (fst (block_edit f clk sock data w)) =
           fst (persist_edit f (clk 3) (db w) (edit_blockId data) (edit_operation data)
                  (auth_userId sock))
       \<and> (\<forall>block. sermonBlock (db w) (edit_blockId data) = Some block
            \<longrightarrow> map_option content
                  (sermonBlock (db (fst (block_edit no_faults clk sock data w)))
                     (edit_blockId data)) =
                  Some (apply_operation (content block) (edit_operation data))
                \<and> (\<exists>t m. snd (block_edit no_faults clk sock data w) = [(IoTo t, m)]
                      \<and> is_event BLOCK_UPDATED m))"
proof -
  let ?key = "SESSION_PREFIX @ roomId_of (edit_entityType data) (edit_entityId data)"
  have ls: "lock_step clk (redis w) ?key (edit_blockId data) (edit_operation data)
      (auth_userId sock) = (None, Inr ())" for clk
    using assms by (simp add: lock_step_def)
  have a: "redis (fst (block_edit f clk sock data w)) = None"
    using ls by (simp add: block_edit_def Let_def split: prod.splits sum.splits)
  have b: "\<forall>e \<in> set (snd (block_edit f clk sock data w)).
      \<not> is_error ''BLOCK_LOCKED'' (snd e)"
    by (rule block_edit_not_refused) (simp add: ls)
  have c: "db (fst (block_edit f clk sock data w)) =
      fst (persist_edit f (clk 3) (db w) (edit_blockId data) (edit_operation data)
             (auth_userId sock))"
    using ls by (simp add: block_edit_def Let_def split: prod.splits sum.splits)
  have d: "map_option content
        (sermonBlock (db (fst (block_edit no_faults clk sock data w))) (edit_blockId data)) =
        Some (apply_operation (content block) (edit_operation data))
      \<and> (\<exists>t m. snd (block_edit no_faults clk sock data w) = [(IoTo t, m)]
            \<and> is_event BLOCK_UPDATED m)"
    if "sermonBlock (db w) (edit_blockId data) = Some block" for block
    using ls that
    by (simp add: block_edit_def Let_def persist_edit_def no_faults_def)
  show ?thesis
    using a b c d by blast
qed

lemma redis_after_edit: "redis after_edit = Some (store_with session_after_edit)"
  by code_simp

theorem C1_refused_witness:
  "block_edit no_faults (at 2000) bob (edit_b1 (insert_op 0 ''x'')) after_edit =
     (after_edit,
      [(Emit ''s2'',
        ErrorMsg ''BLOCK_LOCKED'' ''This block is currently being edited by another user''
          (LockedDetails ''b1'' ''alice''))])"
proof -
  let ?data = "edit_b1 (insert_op 0 ''x'')"
  let ?l = "\<lparr>lock_userId = ''alice'', lock_expires = 31000\<rparr>"
  have get: "redis_get (store_with session_after_edit)
      (SESSION_PREFIX @ roomId_of (edit_entityType ?data) (edit_entityId ?data))
      = Some session_after_edit"
    by (simp add: redis_get_def store_with_def key_d1_def edit_b1_def)
  have lk: "map_of (locks session_after_edit) (edit_blockId ?data) = Some ?l"
    by (simp add: session_after_edit_def edit_b1_def)
  have holder: "lock_userId ?l = ''alice''"
    by simp
  have other: "''alice'' \<noteq> auth_userId bob"
    by (simp add: bob_def)
  have future: "at 2000 0 < lock_expires ?l"
    by (simp add: at_def)
  show ?thesis
    using C1_edit_of_block_locked_by_other_is_refused
      [where clk = "at 2000" and f = no_faults, OF redis_after_edit get lk holder other future]
    by (simp add: bob_def edit_b1_def)
qed

text \<open>
  Claim C1, as stated, fails: the handler takes the room from the request and never
  compares it with the document of the block. While Alice holds the lock on \<^verbatim>\<open>b1\<close> in the
  session of \<^verbatim>\<open>sermon:d1\<close> until 31000, Bob's edit of \<^verbatim>\<open>b1\<close> at 2000 that names the room
  \<^verbatim>\<open>sermon:d2\<close>, which has no session, is not refused: the content of the block changes and
  the update is broadcast.
\<close>

theorem C1_other_room_counterexample:
  "map_option (\<lambda>r. map_option (\<lambda>s. map_of (locks s) ''b1'') (redis_get r key_d1))
     (redis after_edit) =
     Some (Some (Some \<lparr>lock_userId = ''alice'', lock_expires = 31000\<rparr>))
   \<and> snd (block_edit no_faults (at 2000) bob
          ((edit_b1 (insert_op 0 ''x''))\<lparr>edit_entityId := ''d2''\<rparr>) after_edit) =
       [(IoTo ''sermon:d2'',
         CollaborationMsg BLOCK_UPDATED ''sermon:d2'' ''bob'' 2000
           (BlockUpdatedData ''b1''
              \<lparr>operation_fields = insert_op 0 ''x'', operation_blockId = ''b1'',
               operation_userId = ''bob'', operation_timestamp = 2000\<rparr>
              ''xGrace''))]
   \<and> map_option content (sermonBlock (db after_edit) ''b1'') = Some ''Grace''
   \<and> map_option content
       (sermonBlock (db (fst (block_edit no_faults (at 2000) bob
          ((edit_b1 (insert_op 0 ''x''))\<lparr>edit_entityId := ''d2''\<rparr>) after_edit))) ''b1'') =
       Some ''xGrace''"
proof -
  let ?data = "(edit_b1 (insert_op 0 ''x''))\<lparr>edit_entityId := ''d2''\<rparr>"
  have a: "map_option (\<lambda>r. map_option (\<lambda>s. map_of (locks s) ''b1'') (redis_get r key_d1))
      (redis after_edit) =
      Some (Some (Some \<lparr>lock_userId = ''alice'', lock_expires = 31000\<rparr>))"
    by code_simp
  have b: "snd (block_edit no_faults (at 2000) bob ?data after_edit) =
      [(IoTo ''sermon:d2'',
        CollaborationMsg BLOCK_UPDATED ''sermon:d2'' ''bob'' 2000
          (BlockUpdatedData ''b1''
             \<lparr>operation_fields = insert_op 0 ''x'', operation_blockId = ''b1'',
              operation_userId = ''bob'', operation_timestamp = 2000\<rparr>
             ''xGrace''))]"
    by code_simp
  have c: "map_option content (sermonBlock (db after_edit) ''b1'') = Some ''Grace''"
    by code_simp
  have d: "map_option content
      (sermonBlock (db (fst (block_edit no_faults (at 2000) bob ?data after_edit))) ''b1'') =
      Some ''xGrace''"
    by code_simp
  show ?thesis
    using a b c d by simp
qed

theorem C5_expired_lock_witness:
  "map_of (locks session_after_edit) ''b1'' = Some \<lparr>lock_userId = ''alice'', lock_expires = 31000\<rparr>
   \<and> locked_by_other session_after_edit ''b1'' ''bob'' 31000 = None
   \<and> locked_by_other session_after_edit ''b1'' ''bob'' 30999 = Some ''alice''
   \<and> list_all (\<lambda>e. \<not> is_error ''BLOCK_LOCKED'' (snd e))
       (snd (block_edit no_faults (at 31000) bob (edit_b1 (insert_op 0 ''x'')) after_edit))"
proof -
  let ?data = "edit_b1 (insert_op 0 ''x'')"
  have acq: "acquire (at 1000) session_after_joins ''b1'' (insert_op 0 ''Grace'') ''alice''
      = Inr session_after_edit"
    by code_simp
  have late: "at 1000 1 + 30000 \<le> at 31000 0"
    by (simp add: at_def)
  note main = C5_expired_lock_does_not_block
    [where clkA = "at 1000" and clkB = "at 31000" and pB = "''bob''", OF acq late]
  have early: "locked_by_other session_after_edit ''b1'' ''bob'' 30999 = Some ''alice''"
    by code_simp
  have get: "redis_get (store_with session_after_edit)
      (SESSION_PREFIX @ roomId_of (edit_entityType ?data) (edit_entityId ?data))
      = Some session_after_edit"
    by (simp add: redis_get_def store_with_def key_d1_def edit_b1_def)
  have "\<forall>e \<in> set (snd (block_edit no_faults (at 31000) bob ?data after_edit)).
      \<not> is_error ''BLOCK_LOCKED'' (snd e)"
    using main [THEN conjunct2, THEN conjunct2, THEN conjunct2,
        THEN spec [of _ after_edit], THEN spec [of _ "store_with session_after_edit"],
        THEN spec [of _ bob], THEN spec [of _ ?data], THEN spec [of _ no_faults]]
      redis_after_edit get
    by (simp add: edit_b1_def bob_def)
  then have edit: "list_all (\<lambda>e. \<not> is_error ''BLOCK_LOCKED'' (snd e))
      (snd (block_edit no_faults (at 31000) bob ?data after_edit))"
    by (simp add: list_all_iff)
  show ?thesis
    using main early edit by (simp add: at_def)
qed

theorem C2_failed_persistence_witness:
  "snd (block_edit no_faults (at 2000) bob
          ((edit_b1 (insert_op 0 ''x''))\<lparr>edit_blockId := ''b9''\<rparr>) after_joins) =
     [(Emit ''s2'',
       ErrorMsg ''EDIT_ERROR'' ''Failed to apply edit operation''
         (EditDetails ''b9'' ''Block not found: b9''))]
   \<and> redis (fst (block_edit no_faults (at 2000) bob
          ((edit_b1 (insert_op 0 ''x''))\<lparr>edit_blockId := ''b9''\<rparr>) after_joins)) =
       Some (store_with (session_after_joins
         \<lparr>operations :=
            [\<lparr>operation_fields = insert_op 0 ''x'', operation_blockId = ''b9'',
              operation_userId = ''bob'', operation_timestamp = 2000\<rparr>]\<rparr>))"
proof -
  let ?data = "(edit_b1 (insert_op 0 ''x''))\<lparr>edit_blockId := ''b9''\<rparr>"
  let ?out = "snd (block_edit no_faults (at 2000) bob ?data after_joins)"
  have ok: "snd (lock_step (at 2000) (redis after_joins)
      (SESSION_PREFIX @ roomId_of (edit_entityType ?data) (edit_entityId ?data))
      (edit_blockId ?data) (edit_operation ?data) (auth_userId bob)) = Inr ()"
    by code_simp
  have missing: "findUnique_throws no_faults \<noteq> None
      \<or> sermonBlock (db after_joins) (edit_blockId ?data) = None
      \<or> update_throws no_faults \<noteq> None \<or> create_throws no_faults \<noteq> None"
    by code_simp
  have "\<exists>msg. ?out = [(Emit (socket_id bob),
      ErrorMsg ''EDIT_ERROR'' ''Failed to apply edit operation''
        (EditDetails (edit_blockId ?data) msg))]"
    using C2_failed_persistence_releases_lock [OF refl ok missing] by blast
  moreover have "map (\<lambda>e. case snd e of ErrorMsg c m (EditDetails b msg) \<Rightarrow> msg | _ \<Rightarrow> []) ?out
      = [''Block not found: b9'']"
    by code_simp
  moreover have "redis (fst (block_edit no_faults (at 2000) bob ?data after_joins)) =
      Some (store_with (session_after_joins
        \<lparr>operations :=
           [\<lparr>operation_fields = insert_op 0 ''x'', operation_blockId = ''b9'',
             operation_userId = ''bob'', operation_timestamp = 2000\<rparr>]\<rparr>))"
    by code_simp
  ultimately show ?thesis
    by (auto simp: bob_def edit_b1_def)
qed

theorem C9_without_redis_witness:
  "redis (fst (block_edit no_faults (at 2000) bob (edit_b1 (insert_op 0 ''x''))
          (empty_world False example_db))) = None
   \<and> map_option content
       (sermonBlock (db (fst (block_edit no_faults (at 2000) bob (edit_b1 (insert_op 0 ''x''))
          (empty_world False example_db)))) ''b1'') = Some ''x''"
proof -
  let ?data = "edit_b1 (insert_op 0 ''x'')"
  let ?w = "empty_world False example_db"
  have null: "redis ?w = None"
    by (simp add: empty_world_def)
  have blk: "sermonBlock (db ?w) (edit_blockId ?data) = Some \<lparr>content = [], updatedAt = 0\<rparr>"
    by (simp add: empty_world_def example_db_def edit_b1_def)
  note main = C9_without_redis_edit_is_applied_unlocked
    [OF null, where f = no_faults and clk = "at 2000" and sock = bob and data = ?data]
  have a: "redis (fst (block_edit no_faults (at 2000) bob ?data ?w)) = None"
    using main by (rule conjunct1)
  have b: "map_option content
      (sermonBlock (db (fst (block_edit no_faults (at 2000) bob ?data ?w))) (edit_blockId ?data)) =
      Some (apply_operation (content \<lparr>content = [], updatedAt = 0\<rparr>) (edit_operation ?data))"
    using main [THEN conjunct2, THEN conjunct2, THEN conjunct2, rule_format, OF blk]
    by (rule conjunct1)
  have c: "apply_operation [] (insert_op 0 ''x'') = ''x''"
    by code_simp
  show ?thesis
    using a b c by (simp add: edit_b1_def)
qed

section \<open>Two lock steps on one store\<close>

text \<open>
  Claim C8, as amended. The lock step is a read of the session record followed by a
  separate write, not one atomic access. Two lock steps by different users on the same
  block of the same room, the block id being other than \<^verbatim>\<open>__proto__\<close>, that reach the store
  in turn (the second reads after the first has written) never both succeed when the room
  has a session record and the second checks before the expiry of the first's lock: if
  the first succeeds, the second is refused and names the first as holder. When the room
  has no session record, nothing is checked or stored and both succeed.
\<close>

theorem C8_lock_steps_in_turn_exclude_each_other:
  assumes "req_blockId a = req_blockId b"
    and "req_userId a \<noteq> req_userId b"
    and "req_clock b 0 < req_clock a 1 + 30000"
    and "acquire_in_turn r sessionKey a b = (r', resA, resB)"
  shows "(redis_get r sessionKey \<noteq> None \<and> req_blockId a \<noteq> ''__proto__'' \<and> resA = Inr ()
            \<longrightarrow> resB = Inl (req_userId a))
       \<and> (redis_get r sessionKey \<noteq> None \<and> req_blockId a \<noteq> ''__proto__''
            \<longrightarrow> \<not> (resA = Inr () \<and> resB = Inr ()))
       \<and> (redis_get r sessionKey = None \<longrightarrow> resA = Inr () \<and> resB = Inr () \<and> r' = r)"
proof -
  have "resB = Inl (req_userId a)"
    if first: "resA = Inr ()" and some: "redis_get r sessionKey \<noteq> None"
      and named: "req_blockId a \<noteq> ''__proto__''"
  proof -
    obtain session where get: "redis_get r sessionKey = Some session"
      using some by auto
    obtain s1 where acq: "acquire (req_clock a) session (req_blockId a) (req_operation a)
        (req_userId a) = Inr s1"
      using get assms(4) first
      by (auto simp: acquire_in_turn_def acquire_read_def acquire_write_def Let_def
          split: sum.splits)
    have lk: "map_of (locks s1) (req_blockId b) =
        Some \<lparr>lock_userId = req_userId a, lock_expires = req_clock a 1 + LOCK_TIMEOUT\<rparr>"
      using acquire_installs_lock [OF acq] assms(1) named by simp
    have "locked_by_other s1 (req_blockId b) (req_userId b) (req_clock b 0) =
        Some (req_userId a)"
      using lk assms(2,3) by (simp add: locked_by_other_def LOCK_TIMEOUT_def)
    then show ?thesis
      using get assms(4) acq
      by (auto simp: acquire_in_turn_def acquire_read_def acquire_write_def Let_def
          redis_get_set acquire_def)
  qed
  moreover have "resA = Inr () \<and> resB = Inr () \<and> r' = r" if "redis_get r sessionKey = None"
    using that assms(4)
    by (auto simp: acquire_in_turn_def acquire_read_def acquire_write_def Let_def)
  ultimately show ?thesis
    by auto
qed

theorem C8_in_turn_witness:
  "snd (acquire_in_turn (store_with session_after_joins) key_d1
          (request_at 1000 alice) (request_at 1001 bob)) = (Inr (), Inl ''alice'')
   \<and> acquire_in_turn \<lparr>strings = [], sets = []\<rparr> key_d1
          (request_at 1000 alice) (request_at 1001 bob) =
       (\<lparr>strings = [], sets = []\<rparr>, Inr (), Inr ())"
proof -
  let ?r = "store_with session_after_joins"
  let ?e = "\<lparr>strings = [], sets = []\<rparr>"
  have get: "redis_get ?r key_d1 \<noteq> None"
    by (simp add: redis_get_def store_with_def)
  have named: "req_blockId (request_at 1000 alice) \<noteq> ''__proto__''"
    by (simp add: request_at_def)
  have blk: "req_blockId (request_at 1000 alice) = req_blockId (request_at 1001 bob)"
    by (simp add: request_at_def)
  have usr: "req_userId (request_at 1000 alice) \<noteq> req_userId (request_at 1001 bob)"
    by (simp add: request_at_def alice_def bob_def)
  have tm: "req_clock (request_at 1001 bob) 0 < req_clock (request_at 1000 alice) 1 + 30000"
    by (simp add: request_at_def at_def)
  obtain r' resA resB where turn: "acquire_in_turn ?r key_d1
      (request_at 1000 alice) (request_at 1001 bob) = (r', resA, resB)"
    by (cases "acquire_in_turn ?r key_d1 (request_at 1000 alice) (request_at 1001 bob)") auto
  have "fst (snd (acquire_in_turn ?r key_d1 (request_at 1000 alice) (request_at 1001 bob)))
      = Inr ()"
    by code_simp
  with turn have first: "resA = Inr ()"
    by simp
  have "resB = Inl (req_userId (request_at 1000 alice))"
    using C8_lock_steps_in_turn_exclude_each_other [OF blk usr tm turn, THEN conjunct1]
      get named first
    by blast
  then have "resB = Inl ''alice''"
    by (simp add: request_at_def alice_def)
  with turn first have a: "snd (acquire_in_turn ?r key_d1
      (request_at 1000 alice) (request_at 1001 bob)) = (Inr (), Inl ''alice'')"
    by simp
  obtain r'' resA' resB' where turn': "acquire_in_turn ?e key_d1
      (request_at 1000 alice) (request_at 1001 bob) = (r'', resA', resB')"
    by (cases "acquire_in_turn ?e key_d1 (request_at 1000 alice) (request_at 1001 bob)") auto
  have none: "redis_get ?e key_d1 = None"
    by (simp add: redis_get_def)
  have "resA' = Inr () \<and> resB' = Inr () \<and> r'' = ?e"
    using C8_lock_steps_in_turn_exclude_each_other
      [OF blk usr tm turn', THEN conjunct2, THEN conjunct2] none
    by blast
  with turn' have b: "acquire_in_turn ?e key_d1
      (request_at 1000 alice) (request_at 1001 bob) = (?e, Inr (), Inr ())"
    by simp
  show ?thesis
    using a b by simp
qed

text \<open>
  Claim C8, as stated, fails: when Alice and Bob both read the session before either
  writes it, neither sees a lock, both lock steps succeed, and the session written last
  holds Bob's lock only.
\<close>

theorem C8_interleaved_counterexample:
  "snd (acquire_interleaved (store_with session_after_joins) key_d1
          (request_at 1000 alice) (request_at 1001 bob)) = (Inr (), Inr ())"
  by code_simp

section \<open>Broadcasts of \<^verbatim>\<open>join\<close> and \<^verbatim>\<open>cursor\<close>\<close>

lemma join_not_delivered_to_sender:
  "\<forall>m \<in> set (delivered (rooms (fst (join clk sock jd w))) (snd (join clk sock jd w))
             (socket_id sock)). \<not> is_event USER_JOINED m"
  by (auto simp: join_def delivered_def Let_def split: option.splits if_splits)

lemma cursor_not_delivered_to_sender:
  "\<forall>m \<in> set (delivered (rooms (fst (cursor clk sock cd w))) (snd (cursor clk sock cd w))
             (socket_id sock)). \<not> is_event CURSOR_MOVED m"
  by (auto simp: cursor_def delivered_def Let_def split: option.splits)

lemma cursor_rooms: "rooms (fst (cursor clk sock cd w)) = rooms w"
  by (simp add: cursor_def Let_def split: option.splits)

lemma cursor_delivered_to_others:
  assumes "sid \<noteq> socket_id sock"
    and "sid \<in> rooms w (roomId_of (cursor_entityType cd) (cursor_entityId cd))"
  shows "delivered (rooms (fst (cursor clk sock cd w))) (snd (cursor clk sock cd w)) sid =
           [CollaborationMsg CURSOR_MOVED (roomId_of (cursor_entityType cd) (cursor_entityId cd))
              (auth_userId sock) (clk 1) (CursorData (auth_userId sock) (cursor_pos cd))]"
  using assms by (simp add: cursor_rooms) (simp add: cursor_def delivered_def Let_def)

lemma join_delivered_to_others:
  assumes "checkCollaborationAccess (db w) (auth_userId sock) (join_entityType jd)
             (join_entityId jd)"
    and "user (db w) (auth_userId sock) = Some u"
    and "sid \<noteq> socket_id sock"
    and "sid \<in> rooms w (roomId_of (join_entityType jd) (join_entityId jd))"
  shows "\<exists>cu ts. delivered (rooms (fst (join clk sock jd w))) (snd (join clk sock jd w)) sid =
           [CollaborationMsg USER_JOINED (roomId_of (join_entityType jd) (join_entityId jd))
              (auth_userId sock) ts (JoinedData cu)]"
  using assms
  by (auto simp: join_def delivered_def Let_def redis_get_def redis_set_def redis_sadd_def
      update_conv' split: option.splits)

text \<open>
  Claim C7. No \<^verbatim>\<open>user_joined\<close> message of a \<^verbatim>\<open>join\<close> and no \<^verbatim>\<open>cursor_moved\<close> message of a
  \<^verbatim>\<open>cursor\<close> reaches the socket that sent the request. Every other socket of the room
  receives the \<^verbatim>\<open>cursor_moved\<close> message of a cursor update, and the \<^verbatim>\<open>user_joined\<close> message
  of a join that passes the access check and finds the user's profile, and nothing else.
\<close>

theorem C7_broadcasts_exclude_the_originator:
  "(\<forall>m \<in> set (delivered (rooms (fst (join clk sock jd w))) (snd (join clk sock jd w))
              (socket_id sock)). \<not> is_event USER_JOINED m)
   \<and> (\<forall>m \<in> set (delivered (rooms (fst (cursor clk sock cd w))) (snd (cursor clk sock cd w))
              (socket_id sock)). \<not> is_event CURSOR_MOVED m)
   \<and> (\<forall>sid. sid \<noteq> socket_id sock
          \<and> sid \<in> rooms w (roomId_of (cursor_entityType cd) (cursor_entityId cd))
        \<longrightarrow> delivered (rooms (fst (cursor clk sock cd w))) (snd (cursor clk sock cd w)) sid =
              [CollaborationMsg CURSOR_MOVED
                 (roomId_of (cursor_entityType cd) (cursor_entityId cd))
                 (auth_userId sock) (clk 1) (CursorData (auth_userId sock) (cursor_pos cd))])
   \<and> (\<forall>sid u. checkCollaborationAccess (db w) (auth_userId sock) (join_entityType jd)
              (join_entityId jd)
          \<and> user (db w) (auth_userId sock) = Some u
          \<and> sid \<noteq> socket_id sock
          \<and> sid \<in> rooms w (roomId_of (join_entityType jd) (join_entityId jd))
        \<longrightarrow> (\<exists>cu ts. delivered (rooms (fst (join clk sock jd w))) (snd (join clk sock jd w)) sid =
              [CollaborationMsg USER_JOINED (roomId_of (join_entityType jd) (join_entityId jd))
                 (auth_userId sock) ts (JoinedData cu)]))"
  using join_not_delivered_to_sender [of clk sock jd w]
    cursor_not_delivered_to_sender [of clk sock cd w]
    cursor_delivered_to_others [of _ sock w cd clk]
    join_delivered_to_others [of w sock jd _ _ clk]
  by blast

theorem C7_broadcast_witness:
  "delivered (rooms (fst (cursor (at 50) alice cursor_b1 after_joins)))
     (snd (cursor (at 50) alice cursor_b1 after_joins)) ''s2'' =
     [CollaborationMsg CURSOR_MOVED ''sermon:d1'' ''alice'' 50
        (CursorData ''alice'' \<lparr>cursor_blockId = ''b1'', cursor_offset = 3\<rparr>)]
   \<and> list_all (\<lambda>m. \<not> is_event CURSOR_MOVED m)
       (delivered (rooms (fst (cursor (at 50) alice cursor_b1 after_joins)))
          (snd (cursor (at 50) alice cursor_b1 after_joins)) ''s1'')
   \<and> list_all (\<lambda>m. \<not> is_event USER_JOINED m)
       (delivered (rooms (fst (join (at 10) bob join_d1 after_alice)))
          (snd (join (at 10) bob join_d1 after_alice)) ''s2'')
   \<and> map (is_event USER_JOINED)
       (delivered (rooms (fst (join (at 10) bob join_d1 after_alice)))
          (snd (join (at 10) bob join_d1 after_alice)) ''s1'') = [True]"
proof -
  note main = C7_broadcasts_exclude_the_originator
    [where clk = "at 50" and sock = alice and cd = cursor_b1 and w = after_joins
       and jd = join_d1]
  note main' = C7_broadcasts_exclude_the_originator
    [where clk = "at 10" and sock = bob and cd = cursor_b1 and w = after_alice
       and jd = join_d1]
  have other: "''s2'' \<noteq> socket_id alice"
    by (simp add: alice_def)
  have member: "''s2'' \<in> rooms after_joins
      (roomId_of (cursor_entityType cursor_b1) (cursor_entityId cursor_b1))"
    by code_simp
  have a: "delivered (rooms (fst (cursor (at 50) alice cursor_b1 after_joins)))
      (snd (cursor (at 50) alice cursor_b1 after_joins)) ''s2'' =
      [CollaborationMsg CURSOR_MOVED
         (roomId_of (cursor_entityType cursor_b1) (cursor_entityId cursor_b1))
         (auth_userId alice) (at 50 1) (CursorData (auth_userId alice) (cursor_pos cursor_b1))]"
    using main [THEN conjunct2, THEN conjunct2, THEN conjunct1, rule_format, of "''s2''"]
      other member
    by blast
  have b: "list_all (\<lambda>m. \<not> is_event CURSOR_MOVED m)
      (delivered (rooms (fst (cursor (at 50) alice cursor_b1 after_joins)))
         (snd (cursor (at 50) alice cursor_b1 after_joins)) ''s1'')"
    using main [THEN conjunct2, THEN conjunct1] by (simp add: list_all_iff alice_def)
  have c: "list_all (\<lambda>m. \<not> is_event USER_JOINED m)
      (delivered (rooms (fst (join (at 10) bob join_d1 after_alice)))
         (snd (join (at 10) bob join_d1 after_alice)) ''s2'')"
    using main' [THEN conjunct1] by (simp add: list_all_iff bob_def)
  have access: "checkCollaborationAccess (db after_alice) (auth_userId bob)
      (join_entityType join_d1) (join_entityId join_d1)"
    by code_simp
  have profile: "user (db after_alice) (auth_userId bob) =
      Some \<lparr>firstName = ''Bob'', lastName = ''B'', avatarUrl = None\<rparr>"
    by code_simp
  have other': "''s1'' \<noteq> socket_id bob"
    by (simp add: bob_def)
  have member': "''s1'' \<in> rooms after_alice
      (roomId_of (join_entityType join_d1) (join_entityId join_d1))"
    by code_simp
  have "\<exists>cu ts. delivered (rooms (fst (join (at 10) bob join_d1 after_alice)))
      (snd (join (at 10) bob join_d1 after_alice)) ''s1'' =
      [CollaborationMsg USER_JOINED (roomId_of (join_entityType join_d1) (join_entityId join_d1))
         (auth_userId bob) ts (JoinedData cu)]"
    using main' [THEN conjunct2, THEN conjunct2, THEN conjunct2, rule_format,
        of "\<lparr>firstName = ''Bob'', lastName = ''B'', avatarUrl = None\<rparr>" "''s1''"]
      access profile other' member'
    by blast
  then have d: "map (is_event USER_JOINED)
      (delivered (rooms (fst (join (at 10) bob join_d1 after_alice)))
         (snd (join (at 10) bob join_d1 after_alice)) ''s1'') = [True]"
    by auto
  show ?thesis
    using a b c d
    by (simp add: cursor_b1_def alice_def at_def roomId_of_def)
qed

section \<open>Sessions without users\<close>































section \<open>The reverse index\<close>

lemma prefixes_differ [simp]:
  "SESSION_PREFIX @ x \<noteq> USER_SESSIONS_PREFIX @ y"
  "USER_SESSIONS_PREFIX @ y \<noteq> SESSION_PREFIX @ x"
  by (simp_all add: SESSION_PREFIX_def USER_SESSIONS_PREFIX_def REDIS_PREFIX_def)

lemma smembers_set [simp]: "redis_smembers (redis_set r k v) k' = redis_smembers r k'"
  by (simp add: redis_smembers_def redis_set_def)

lemma smembers_del [simp]:
  "redis_smembers (redis_del r k) k' = (if k' = k then [] else redis_smembers r k')"
  by (simp add: redis_smembers_def redis_del_def delete_conv')

lemma smembers_sadd [simp]:
  "redis_smembers (redis_sadd r k m) k' =
     (if k' = k then List.insert m (redis_smembers r k) else redis_smembers r k')"
  by (simp add: redis_smembers_def redis_sadd_def update_conv')

lemma smembers_srem [simp]:
  "redis_smembers (redis_srem r k m) k' =
     (if k' = k then removeAll m (redis_smembers r k) else redis_smembers r k')"
  by (simp add: redis_smembers_def redis_srem_def Let_def update_conv' delete_conv')

lemma get_sadd [simp]: "redis_get (redis_sadd r k m) k' = redis_get r k'"
  by (simp add: redis_get_def redis_sadd_def)

lemma get_srem [simp]: "redis_get (redis_srem r k m) k' = redis_get r k'"
  by (simp add: redis_get_def redis_srem_def Let_def)

































section \<open>Listed users are present\<close>






lemma store_present_srem [simp]:
  "store_present owner rms (redis_srem r k m) = store_present owner rms r"
  by (simp add: store_present_def)







lemma block_edit_rooms: "rooms (fst (block_edit f clk sock ed w)) = rooms w"
  by (simp add: block_edit_def Let_def split: prod.splits sum.splits)
















end
